theory Spec2Isabelle
  imports Main
begin

text \<open>
  A model of the components of the job application assistant: the resume parser
  (text extraction, sections, skills), the cover letter generator (bullets, letter,
  customisation), the Airtable tracker's insertion and the company researcher. Each
  method is a function of the same name; what a method gets from outside the program
  (the chat model, the document libraries, the clock, the search client, the web) is
  a parameter.
\<close>

section \<open>Python strings\<close>

text \<open>
  A Python \<open>str\<close> is a sequence of Unicode code points; \<open>len\<close>, \<open>strip\<close>, \<open>split\<close>,
  \<open>startswith\<close> and \<open>in\<close> all work on code points. A string is modelled as the list of
  its code points, and \<open>cps\<close> turns an ASCII literal into that list.
\<close>

type_synonym pstr = "nat list"

definition cps :: "string \<Rightarrow> pstr" where
  "cps s = map of_char s"

definition nl :: pstr where
  "nl = [10]"

text \<open>
  The code points that \<open>str.isspace\<close> accepts, which are the ones \<open>str.strip()\<close>
  removes: TAB..CR, FS..US, SPACE, NEL, NBSP, U+1680, U+2000..U+200A, U+2028, U+2029,
  U+202F, U+205F, U+3000.
\<close>

definition isspace :: "nat \<Rightarrow> bool" where
  "isspace c = ((9 \<le> c \<and> c \<le> 13) \<or> (28 \<le> c \<and> c \<le> 32) \<or> c = 133 \<or> c = 160
     \<or> c = 5760 \<or> (8192 \<le> c \<and> c \<le> 8202) \<or> c = 8232 \<or> c = 8233 \<or> c = 8239
     \<or> c = 8287 \<or> c = 12288)"

definition str_lstrip :: "pstr \<Rightarrow> pstr" where
  "str_lstrip s = dropWhile isspace s"

definition str_rstrip :: "pstr \<Rightarrow> pstr" where
  "str_rstrip s = rev (dropWhile isspace (rev s))"

definition str_strip :: "pstr \<Rightarrow> pstr" where
  "str_strip s = str_rstrip (str_lstrip s)"

text \<open>\<open>s.startswith(p)\<close> and \<open>sub in s\<close>.\<close>

fun str_startswith :: "pstr \<Rightarrow> pstr \<Rightarrow> bool" where
  "str_startswith s [] = True"
| "str_startswith [] (p # ps) = False"
| "str_startswith (c # cs) (p # ps) = (c = p \<and> str_startswith cs ps)"

fun str_contains :: "pstr \<Rightarrow> pstr \<Rightarrow> bool" where
  "str_contains [] sub = (sub = [])"
| "str_contains (c # cs) sub = (str_startswith (c # cs) sub \<or> str_contains cs sub)"

text \<open>
  \<open>s.split(sep)\<close> for a non-empty separator: left to right, non-overlapping, the pieces
  between the occurrences (so at least one piece, possibly empty). Python raises
  ValueError for an empty separator; the program only splits on the constants
  \<open>'\n'\<close>, \<open>'.'\<close>, \<open>'url?q='\<close> and \<open>'&'\<close>.
\<close>

fun str_split_acc :: "pstr \<Rightarrow> pstr \<Rightarrow> pstr \<Rightarrow> pstr list" where
  "str_split_acc sep cur [] = [cur]"
| "str_split_acc sep cur (c # cs) =
     (if sep \<noteq> [] \<and> str_startswith (c # cs) sep
      then cur # str_split_acc sep [] (drop (length sep) (c # cs))
      else str_split_acc sep (cur @ [c]) cs)"

definition str_split :: "pstr \<Rightarrow> pstr \<Rightarrow> pstr list" where
  "str_split s sep = str_split_acc sep [] s"

text \<open>\<open>sep.join(items)\<close>.\<close>

fun str_join :: "pstr \<Rightarrow> pstr list \<Rightarrow> pstr" where
  "str_join sep [] = []"
| "str_join sep [x] = x"
| "str_join sep (x # y # ys) = x @ sep @ str_join sep (y # ys)"

text \<open>
  \<open>str.lower()\<close> replaces each code point by its lowercase mapping. On ASCII that is
  \<open>A..Z \<mapsto> a..z\<close> and nothing else, and the white-space code points have no case
  mapping. The mapping of the other code points (a code point may lower to several, or
  to an ASCII letter, as U+212A KELVIN SIGN does) and the properties Cased and
  Case_Ignorable come from the Unicode character database, which is not part of the
  program: they are the parameter \<open>ucd\<close>.

  One code point is lowered by its context: U+03A3 GREEK CAPITAL LETTER SIGMA becomes
  U+03C2 (final sigma) when a cased code point precedes it, case-ignorable ones
  skipped, and no cased code point follows it, case-ignorable ones skipped; otherwise
  it becomes U+03C3. \<open>lower_from\<close> goes through the string with the code points before
  the current one at hand.
\<close>

record unicode_data =
  lower_map :: "nat \<Rightarrow> pstr"
  cased :: "nat \<Rightarrow> bool"
  case_ignorable :: "nat \<Rightarrow> bool"

definition lower_cp :: "unicode_data \<Rightarrow> nat \<Rightarrow> pstr" where
  "lower_cp ucd c =
     (if 65 \<le> c \<and> c \<le> 90 then [c + 32]
      else if c < 128 \<or> isspace c then [c]
      else lower_map ucd c)"

definition final_sigma :: "unicode_data \<Rightarrow> pstr \<Rightarrow> pstr \<Rightarrow> bool" where
  "final_sigma ucd before after =
     ((case dropWhile (case_ignorable ucd) (rev before) of
         [] \<Rightarrow> False
       | c # cs \<Rightarrow> cased ucd c)
      \<and> (case dropWhile (case_ignorable ucd) after of
           [] \<Rightarrow> True
         | c # cs \<Rightarrow> \<not> cased ucd c))"

fun lower_from :: "unicode_data \<Rightarrow> pstr \<Rightarrow> pstr \<Rightarrow> pstr" where
  "lower_from ucd before [] = []"
| "lower_from ucd before (c # after) =
     (if c = 931 then [if final_sigma ucd before after then 962 else 963]
      else lower_cp ucd c)
     @ lower_from ucd (before @ [c]) after"

definition str_lower :: "unicode_data \<Rightarrow> pstr \<Rightarrow> pstr" where
  "str_lower ucd s = lower_from ucd [] s"

section \<open>Exceptions and the generation capability\<close>

text \<open>
  An exception is its class name, the text \<open>str(e)\<close> gives, and its \<open>__context__\<close>: the
  exception that was being handled when it was raised, if any. Every exception of the
  model is an instance of \<open>Exception\<close>, the ones \<open>except Exception\<close> catches.
\<close>

datatype py_exception =
  PyExc (exc_class: pstr) (exc_str: pstr) (exc_context: "py_exception option")

datatype message = SystemMessage pstr | HumanMessage pstr

text \<open>
  The chat model (\<open>self.llm\<close>) answers a list of messages with a text or raises, and may
  depend on and change a state of its own. The world of a generator is that state and
  the log of the requests sent so far; \<open>invoke\<close> is \<open>self.llm.invoke(...)\<close> followed by
  \<open>.content\<close>.
\<close>

type_synonym 's chat_model = "message list \<Rightarrow> 's \<Rightarrow> (py_exception + pstr) \<times> 's"

record 's world =
  model_state :: 's
  requests :: "message list list"

definition invoke :: "'s chat_model \<Rightarrow> message list \<Rightarrow> 's world \<Rightarrow> (py_exception + pstr) \<times> 's world" where
  "invoke llm msgs w =
     (case llm msgs (model_state w) of
        (r, s') \<Rightarrow> (r, \<lparr>model_state = s', requests = requests w @ [msgs]\<rparr>))"

section \<open>CoverLetterGenerator\<close>

subsection \<open>extract\_resume\_bullets\<close>

definition bullets_prompt :: "pstr \<Rightarrow> pstr \<Rightarrow> message list" where
  "bullets_prompt resume_text job_description =
    [SystemMessage (str_join nl
      [cps ''You are an expert at identifying the most relevant '',
       cps ''            experience bullets from a resume for a specific job application.'',
       cps ''            '',
       cps ''            Extract 5-8 of the most relevant bullet points from the resume that align '',
       cps ''            with the job description. Focus on:'',
       cps ''            - Quantifiable achievements'',
       cps ''            - Relevant technical skills'',
       cps ''            - Leadership experience'',
       cps ''            - Projects that match the job requirements'',
       cps ''            '',
       cps ''            Return only the bullet points, one per line, starting with '' @ [8226]]),
     HumanMessage (str_join nl
      [cps '''',
       cps ''            RESUME:'',
       cps ''            '' @ resume_text,
       cps ''            '',
       cps ''            JOB DESCRIPTION:'',
       cps ''            '' @ job_description,
       cps ''            '',
       cps ''            Extract the most relevant bullet points:'',
       cps ''            ''])]"

text \<open>
  The loop over \<open>response.content.split('\n')\<close>: each line is stripped and appended to
  \<open>bullets\<close> when it starts with U+2022 BULLET, \<open>-\<close> or \<open>*\<close>.
\<close>

fun bullets_loop :: "pstr list \<Rightarrow> pstr list \<Rightarrow> pstr list" where
  "bullets_loop [] bullets = bullets"
| "bullets_loop (line # rest) bullets =
     (let line' = str_strip line in
      if str_startswith line' [8226] \<or> str_startswith line' (cps ''-'')
         \<or> str_startswith line' (cps ''*'')
      then bullets_loop rest (bullets @ [line'])
      else bullets_loop rest bullets)"

definition extract_resume_bullets ::
  "'s chat_model \<Rightarrow> pstr \<Rightarrow> pstr \<Rightarrow> 's world \<Rightarrow> (py_exception + pstr list) \<times> 's world" where
  "extract_resume_bullets llm resume_text job_description w =
     (case invoke llm (bullets_prompt resume_text job_description) w of
        (Inl e, w') \<Rightarrow> (Inl e, w')
      | (Inr content, w') \<Rightarrow> (Inr (bullets_loop (str_split content nl) []), w'))"

subsection \<open>generate\_cover\_letter and \_format\_cover\_letter\<close>

definition letter_prompt :: "pstr \<Rightarrow> pstr \<Rightarrow> pstr \<Rightarrow> pstr \<Rightarrow> pstr \<Rightarrow> message list" where
  "letter_prompt job_description company_name company_context bullets_text resume_text =
    [SystemMessage (str_join nl
      [cps ''You are an expert cover letter writer who creates '',
       cps ''            compelling, personalized cover letters that get results.'',
       cps ''            '',
       cps ''            Write a professional cover letter that:'',
       cps ''            1. Has a strong, engaging opening paragraph'',
       cps ''            2. Incorporates specific achievements from the resume'',
       cps ''            3. Addresses the job requirements directly'',
       cps ''            4. Shows genuine interest in the company'',
       cps ''            5. Has a confident, professional closing'',
       cps ''            6. Is 3-4 paragraphs long'',
       cps ''            7. Uses active voice and quantifiable achievements'',
       cps ''            '',
       cps ''            Do NOT use generic templates. Make it personal and specific.'',
       cps ''            Include the candidate's name as [Your Name] and company details as provided.'']),
     HumanMessage (str_join nl
      [cps '''',
       cps ''            JOB DESCRIPTION:'',
       cps ''            '' @ job_description,
       cps ''            '',
       cps ''            COMPANY: '' @ company_name,
       cps ''            '' @ company_context,
       cps ''            '',
       cps ''            CANDIDATE'S RELEVANT ACHIEVEMENTS:'',
       cps ''            '' @ bullets_text,
       cps ''            '',
       cps ''            FULL RESUME CONTEXT:'',
       cps ''            '' @ resume_text,
       cps ''            '',
       cps ''            Write a compelling cover letter for this application:'',
       cps ''            ''])]"

definition header :: pstr where
  "header = str_join nl
     [cps ''[Your Name]'',
      cps ''[Your Address]'',
      cps ''[Your Email]'',
      cps ''[Your Phone Number]'',
      cps ''[Date]'',
      cps '''',
      cps ''[Hiring Manager's Name]'',
      cps ''[Company Name]'',
      cps ''[Company Address]'',
      cps '''',
      cps '''']"

definition closings :: "pstr list" where
  "closings = [cps ''sincerely'', cps ''best regards'', cps ''thank you'']"

definition format_cover_letter :: "unicode_data \<Rightarrow> pstr \<Rightarrow> pstr" where
  "format_cover_letter ucd cover_letter =
     (let cover_letter1 =
            (if \<not> str_startswith (str_strip cover_letter) (cps ''[Your Name]'')
                \<and> \<not> str_startswith (str_strip cover_letter) (cps ''Dear'')
             then header @ cover_letter else cover_letter);
          cover_letter2 =
            (if \<not> list_ex (\<lambda>closing. str_contains (str_lower ucd cover_letter1) closing) closings
             then cover_letter1 @ [10, 10] @ cps ''Sincerely,'' @ [10] @ cps ''[Your Name]''
             else cover_letter1)
      in str_strip cover_letter2)"

definition generate_cover_letter ::
  "unicode_data \<Rightarrow> 's chat_model \<Rightarrow> pstr \<Rightarrow> pstr \<Rightarrow> pstr \<Rightarrow> pstr \<Rightarrow> 's world
     \<Rightarrow> (py_exception + pstr) \<times> 's world" where
  "generate_cover_letter ucd llm resume_text job_description company_name company_info w =
     (case extract_resume_bullets llm resume_text job_description w of
        (Inl e, w1) \<Rightarrow> (Inl e, w1)
      | (Inr relevant_bullets, w1) \<Rightarrow>
          (let bullets_text = str_join nl (take 5 relevant_bullets);
               company_context =
                 (if company_info \<noteq> []
                  then [10, 10] @ cps ''COMPANY RESEARCH:'' @ [10] @ company_info else [])
           in case invoke llm (letter_prompt job_description company_name company_context
                                 bullets_text resume_text) w1 of
                (Inl e, w2) \<Rightarrow> (Inl e, w2)
              | (Inr content, w2) \<Rightarrow> (Inr (format_cover_letter ucd content), w2)))"

subsection \<open>customize\_for\_company\<close>

definition customize_prompt :: "pstr \<Rightarrow> pstr \<Rightarrow> message list" where
  "customize_prompt base_cover_letter company_info =
    [SystemMessage (str_join nl
      [cps ''You are tasked with enhancing a cover letter '',
       cps ''            by incorporating specific company information. '',
       cps ''            '',
       cps ''            Add 1-2 sentences that show you've researched the company and explain '',
       cps ''            why you're specifically interested in working there. '',
       cps ''            '',
       cps ''            Integrate this naturally into the existing cover letter without making it longer than 4 paragraphs.'']),
     HumanMessage (str_join nl
      [cps '''',
       cps ''            CURRENT COVER LETTER:'',
       cps ''            '' @ base_cover_letter,
       cps ''            '',
       cps ''            COMPANY INFORMATION:'',
       cps ''            '' @ company_info,
       cps ''            '',
       cps ''            Enhance the cover letter with this company information:'',
       cps ''            ''])]"

definition customize_for_company ::
  "'s chat_model \<Rightarrow> pstr \<Rightarrow> pstr \<Rightarrow> 's world \<Rightarrow> (py_exception + pstr) \<times> 's world" where
  "customize_for_company llm base_cover_letter company_info w =
     (if company_info = [] then (Inr base_cover_letter, w)
      else invoke llm (customize_prompt base_cover_letter company_info) w)"

section \<open>ResumeParser\<close>

subsection \<open>extract\_text\<close>

text \<open>
  An uploaded file is its name and its bytes. The PDF and DOCX libraries and the UTF-8
  decoder are outside the program: \<open>pdf_reader\<close> is \<open>PyPDF2.PdfReader(file).pages\<close> with
  the outcome of \<open>extract_text()\<close> for each page, \<open>docx_document\<close> the texts of
  \<open>docx.Document(file).paragraphs\<close>, \<open>utf8_decode\<close> is \<open>bytes.decode('utf-8')\<close>; each may
  raise.
\<close>

record upload =
  file_name :: pstr
  file_bytes :: "nat list"

record libs =
  pdf_reader :: "nat list \<Rightarrow> py_exception + (py_exception + pstr) list"
  docx_document :: "nat list \<Rightarrow> py_exception + pstr list"
  utf8_decode :: "nat list \<Rightarrow> py_exception + pstr"

fun pdf_loop :: "(py_exception + pstr) list \<Rightarrow> pstr \<Rightarrow> py_exception + pstr" where
  "pdf_loop [] text = Inr text"
| "pdf_loop (page # pages) text =
     (case page of Inl e \<Rightarrow> Inl e | Inr t \<Rightarrow> pdf_loop pages (text @ t @ nl))"

definition extract_from_pdf :: "libs \<Rightarrow> upload \<Rightarrow> py_exception + pstr" where
  "extract_from_pdf l file =
     (case pdf_reader l (file_bytes file) of
        Inl e \<Rightarrow> Inl e
      | Inr pages \<Rightarrow>
          (case pdf_loop pages [] of Inl e \<Rightarrow> Inl e | Inr text \<Rightarrow> Inr (str_strip text)))"

fun docx_loop :: "pstr list \<Rightarrow> pstr \<Rightarrow> pstr" where
  "docx_loop [] text = text"
| "docx_loop (paragraph # paragraphs) text = docx_loop paragraphs (text @ paragraph @ nl)"

definition extract_from_docx :: "libs \<Rightarrow> upload \<Rightarrow> py_exception + pstr" where
  "extract_from_docx l file =
     (case docx_document l (file_bytes file) of
        Inl e \<Rightarrow> Inl e
      | Inr paragraphs \<Rightarrow> Inr (str_strip (docx_loop paragraphs [])))"

definition extract_from_txt :: "libs \<Rightarrow> upload \<Rightarrow> py_exception + pstr" where
  "extract_from_txt l file = utf8_decode l (file_bytes file)"

text \<open>
  The body of the \<open>try\<close> dispatches on the text after the last dot of the name,
  lowercased (the whole name when it has no dot), and raises ValueError for any other
  extension; the handler \<open>except Exception as e\<close> catches every exception of the body,
  that ValueError included, and raises a plain \<open>Exception\<close> with the message prefixed; the
  exception it caught is the \<open>__context__\<close> of the one it raises.
\<close>

definition extract_text_body :: "unicode_data \<Rightarrow> libs \<Rightarrow> upload \<Rightarrow> py_exception + pstr" where
  "extract_text_body ucd l file =
     (let file_extension = str_lower ucd (last (str_split (file_name file) (cps ''.''))) in
      if file_extension = cps ''pdf'' then extract_from_pdf l file
      else if file_extension = cps ''docx'' then extract_from_docx l file
      else if file_extension = cps ''txt'' then extract_from_txt l file
      else Inl (PyExc (cps ''ValueError'') (cps ''Unsupported file format: '' @ file_extension) None))"

definition extract_text :: "unicode_data \<Rightarrow> libs \<Rightarrow> upload \<Rightarrow> py_exception + pstr" where
  "extract_text ucd l file =
     (case extract_text_body ucd l file of
        Inl e \<Rightarrow>
          Inl (PyExc (cps ''Exception'') (cps ''Error extracting text from resume: '' @ exc_str e)
                 (Some e))
      | Inr text \<Rightarrow> Inr text)"

subsection \<open>extract\_key\_sections\<close>

text \<open>
  A \<open>dict\<close> keeps its keys in insertion order; assigning to a key that is present keeps
  its place. It is modelled as an association list with distinct keys.
\<close>

fun dict_set :: "('k \<times> 'v) list \<Rightarrow> 'k \<Rightarrow> 'v \<Rightarrow> ('k \<times> 'v) list" where
  "dict_set [] k v = [(k, v)]"
| "dict_set ((k', v') # d) k v = (if k' = k then (k, v) # d else (k', v') # dict_set d k v)"

definition dict_get :: "('k \<times> 'v) list \<Rightarrow> 'k \<Rightarrow> 'v \<Rightarrow> 'v" where
  "dict_get d k dflt = (case map_of d k of None \<Rightarrow> dflt | Some v \<Rightarrow> v)"

definition init_sections :: "(pstr \<times> pstr) list" where
  "init_sections =
     [(cps ''contact'', []), (cps ''summary'', []), (cps ''experience'', []),
      (cps ''education'', []), (cps ''skills'', []), (cps ''projects'', [])]"

definition section_keywords :: "(pstr \<times> pstr list) list" where
  "section_keywords =
     [(cps ''contact'', [cps ''contact'', cps ''phone'', cps ''email'', cps ''address'']),
      (cps ''summary'', [cps ''summary'', cps ''objective'', cps ''profile'', cps ''about'']),
      (cps ''experience'',
         [cps ''experience'', cps ''employment'', cps ''work history'', cps ''professional'']),
      (cps ''education'',
         [cps ''education'', cps ''degree'', cps ''university'', cps ''college'', cps ''school'']),
      (cps ''skills'',
         [cps ''skills'', cps ''technical'', cps ''competencies'', cps ''technologies'']),
      (cps ''projects'', [cps ''projects'', cps ''portfolio'', cps ''achievements''])]"

text \<open>
  The inner \<open>for section, keywords in section_keywords.items()\<close> with its \<open>break\<close>: the
  first section one of whose keywords occurs in the lowered, stripped line, provided
  the stripped line has fewer than 50 code points.
\<close>

fun find_section :: "(pstr \<times> pstr list) list \<Rightarrow> pstr \<Rightarrow> pstr \<Rightarrow> pstr option" where
  "find_section [] line_lower line = None"
| "find_section ((section, keywords) # rest) line_lower line =
     (if list_ex (\<lambda>keyword. str_contains line_lower keyword) keywords
         \<and> length (str_strip line) < 50
      then Some section
      else find_section rest line_lower line)"

definition section_found :: "unicode_data \<Rightarrow> pstr \<Rightarrow> pstr option" where
  "section_found ucd line = find_section section_keywords (str_strip (str_lower ucd line)) line"

text \<open>
  The loop over the lines, on the state \<open>(sections, current_section, section_content)\<close>.
\<close>

fun save_section :: "(pstr \<times> pstr) list \<Rightarrow> pstr option \<Rightarrow> pstr list \<Rightarrow> (pstr \<times> pstr) list" where
  "save_section sections None section_content = sections"
| "save_section sections (Some current_section) section_content =
     (if section_content \<noteq> []
      then dict_set sections current_section (str_join nl section_content)
      else sections)"

fun sections_loop ::
  "unicode_data \<Rightarrow> pstr list \<Rightarrow> (pstr \<times> pstr) list \<Rightarrow> pstr option \<Rightarrow> pstr list
     \<Rightarrow> (pstr \<times> pstr) list \<times> pstr option \<times> pstr list" where
  "sections_loop ucd [] sections current_section section_content =
     (sections, current_section, section_content)"
| "sections_loop ucd (line # rest) sections current_section section_content =
     (case section_found ucd line of
        Some found \<Rightarrow>
          sections_loop ucd rest (save_section sections current_section section_content)
            (Some found) []
      | None \<Rightarrow>
          (if current_section \<noteq> None \<and> str_strip line \<noteq> []
           then sections_loop ucd rest sections current_section (section_content @ [line])
           else sections_loop ucd rest sections current_section section_content))"

definition extract_key_sections :: "unicode_data \<Rightarrow> pstr \<Rightarrow> (pstr \<times> pstr) list" where
  "extract_key_sections ucd resume_text =
     (case sections_loop ucd (str_split resume_text nl) init_sections None [] of
        (sections, current_section, section_content) \<Rightarrow>
          save_section sections current_section section_content)"

subsection \<open>extract\_skills\_keywords\<close>

definition common_skills :: "pstr list" where
  "common_skills =
     [cps ''python'', cps ''java'', cps ''javascript'', cps ''react'', cps ''node.js'',
      cps ''sql'', cps ''mysql'', cps ''postgresql'',
      cps ''mongodb'', cps ''aws'', cps ''azure'', cps ''docker'', cps ''kubernetes'',
      cps ''git'', cps ''html'', cps ''css'',
      cps ''machine learning'', cps ''data science'', cps ''tensorflow'', cps ''pytorch'',
      cps ''pandas'', cps ''numpy'',
      cps ''api'', cps ''rest'', cps ''graphql'', cps ''agile'', cps ''scrum'', cps ''ci/cd'',
      cps ''devops'', cps ''linux'',
      cps ''project management'', cps ''leadership'', cps ''communication'',
      cps ''problem solving'']"

text \<open>
  \<open>str.title()\<close>: a cased character is uppercased when the character before it is not
  cased (or there is none) and lowercased otherwise. The program applies it to the
  entries of \<open>common_skills\<close> only, which are ASCII; this is the function on ASCII, and
  code points from 128 on are left as they are and count as uncased.
\<close>

definition ascii_cased :: "nat \<Rightarrow> bool" where
  "ascii_cased c = ((65 \<le> c \<and> c \<le> 90) \<or> (97 \<le> c \<and> c \<le> 122))"

definition ascii_upper :: "nat \<Rightarrow> nat" where
  "ascii_upper c = (if 97 \<le> c \<and> c \<le> 122 then c - 32 else c)"

definition ascii_lower :: "nat \<Rightarrow> nat" where
  "ascii_lower c = (if 65 \<le> c \<and> c \<le> 90 then c + 32 else c)"

fun title_from :: "bool \<Rightarrow> pstr \<Rightarrow> pstr" where
  "title_from previous_is_cased [] = []"
| "title_from previous_is_cased (c # cs) =
     (if previous_is_cased then ascii_lower c else ascii_upper c) # title_from (ascii_cased c) cs"

definition str_title :: "pstr \<Rightarrow> pstr" where
  "str_title s = title_from False s"

fun skills_loop :: "pstr \<Rightarrow> pstr list \<Rightarrow> pstr list \<Rightarrow> pstr list" where
  "skills_loop resume_lower [] found_skills = found_skills"
| "skills_loop resume_lower (skill # rest) found_skills =
     (if str_contains resume_lower skill
      then skills_loop resume_lower rest (found_skills @ [str_title skill])
      else skills_loop resume_lower rest found_skills)"

definition extract_skills_keywords :: "unicode_data \<Rightarrow> pstr \<Rightarrow> pstr list" where
  "extract_skills_keywords ucd resume_text =
     skills_loop (str_lower ucd resume_text) common_skills []"

section \<open>AirtableTracker\<close>

text \<open>
  \<open>datetime.now()\<close> is read from a clock outside the program. Only the calendar date of a
  reading matters here: \<open>strftime('%Y-%m-%d')\<close> prints the date, and adding
  \<open>timedelta(days=7)\<close> keeps the time of day. A reading is a date of the Gregorian
  calendar.
\<close>

record date =
  year :: nat
  month :: nat
  day :: nat

definition is_leap :: "nat \<Rightarrow> bool" where
  "is_leap y = (y mod 4 = 0 \<and> (y mod 100 \<noteq> 0 \<or> y mod 400 = 0))"

definition days_in_month :: "nat \<Rightarrow> nat \<Rightarrow> nat" where
  "days_in_month y m =
     (if m = 2 then (if is_leap y then 29 else 28)
      else if m = 4 \<or> m = 6 \<or> m = 9 \<or> m = 11 then 30 else 31)"

definition next_day :: "date \<Rightarrow> date" where
  "next_day d =
     (if day d < days_in_month (year d) (month d) then d\<lparr>day := day d + 1\<rparr>
      else if month d < 12 then \<lparr>year = year d, month = month d + 1, day = 1\<rparr>
      else \<lparr>year = year d + 1, month = 1, day = 1\<rparr>)"

text \<open>\<open>d + timedelta(days=n)\<close>; Python raises OverflowError past the year 9999.\<close>

definition plus_days :: "date \<Rightarrow> nat \<Rightarrow> py_exception + date" where
  "plus_days d n =
     (let d' = (next_day ^^ n) d in
      if year d' > 9999
      then Inl (PyExc (cps ''OverflowError'') (cps ''date value out of range'') None)
      else Inr d')"

text \<open>\<open>strftime('%Y-%m-%d')\<close>, for the years 1000 to 9999.\<close>

definition dec2 :: "nat \<Rightarrow> pstr" where
  "dec2 n = [48 + n div 10 mod 10, 48 + n mod 10]"

definition dec4 :: "nat \<Rightarrow> pstr" where
  "dec4 n = [48 + n div 1000 mod 10, 48 + n div 100 mod 10, 48 + n div 10 mod 10, 48 + n mod 10]"

definition strftime_ymd :: "date \<Rightarrow> pstr" where
  "strftime_ymd d = dec4 (year d) @ cps ''-'' @ dec2 (month d) @ cps ''-'' @ dec2 (day d)"

text \<open>
  \<open>self.airtable\<close> is \<open>None\<close> or a client whose \<open>insert\<close> sends a record to the remote table
  (of state \<open>'t\<close>) and may raise. \<open>add_job_application\<close> returns the boolean and the state
  of the table; what it prints is left out.

  The statement \<open>from datetime import datetime, timedelta\<close> in the body of
  \<open>add_job_application\<close> (line 83) makes \<open>datetime\<close> a local name of the whole function,
  unbound until that statement has run. The dictionary of the defaults (line 74) reads
  the name before, and reading an unbound local name raises UnboundLocalError.
  \<open>local_datetime\<close> is what the name holds where line 74 reads it: \<open>None\<close> when it is
  unbound, otherwise the date \<open>datetime.now()\<close> gives through it. \<open>now2\<close> is the clock's
  reading on line 84, after the import.
\<close>

type_synonym 't airtable = "(pstr \<times> pstr) list \<Rightarrow> 't \<Rightarrow> py_exception + 't"

definition unbound_local :: py_exception where
  "unbound_local =
     PyExc (cps ''UnboundLocalError'')
       (cps ''cannot access local variable 'datetime' where it is not associated with a value'')
       None"

definition record_defaults ::
  "date option \<Rightarrow> (pstr \<times> pstr) list \<Rightarrow> py_exception + (pstr \<times> pstr) list" where
  "record_defaults local_datetime application_data =
     (case local_datetime of
        None \<Rightarrow> Inl unbound_local
      | Some now1 \<Rightarrow>
          Inr [(cps ''Company'', dict_get application_data (cps ''Company'') []),
               (cps ''Position'', dict_get application_data (cps ''Position'') []),
               (cps ''Status'', dict_get application_data (cps ''Status'') (cps ''Applied'')),
               (cps ''Application Date'',
                  dict_get application_data (cps ''Application Date'') (strftime_ymd now1)),
               (cps ''Job Description URL'',
                  dict_get application_data (cps ''Job Description URL'') []),
               (cps ''Notes'', dict_get application_data (cps ''Notes'') []),
               (cps ''Salary Range'', dict_get application_data (cps ''Salary Range'') []),
               (cps ''Contact Person'', dict_get application_data (cps ''Contact Person'') [])])"

text \<open>The body of the \<open>try\<close> up to the call of \<open>insert\<close>.\<close>

definition build_record ::
  "date option \<Rightarrow> date \<Rightarrow> (pstr \<times> pstr) list \<Rightarrow> py_exception + (pstr \<times> pstr) list" where
  "build_record local_datetime now2 application_data =
     (case record_defaults local_datetime application_data of
        Inl e \<Rightarrow> Inl e
      | Inr record_data \<Rightarrow>
          (if cps ''Follow-up Date'' \<notin> set (map fst application_data)
           then (case plus_days now2 7 of
                   Inl e \<Rightarrow> Inl e
                 | Inr follow_up \<Rightarrow>
                     Inr (dict_set record_data (cps ''Follow-up Date'')
                            (strftime_ymd follow_up)))
           else Inr record_data))"

definition add_job_application ::
  "'t airtable option \<Rightarrow> date \<Rightarrow> (pstr \<times> pstr) list \<Rightarrow> 't \<Rightarrow> bool \<times> 't" where
  "add_job_application airtable now2 application_data table =
     (case airtable of
        None \<Rightarrow> (False, table)
      | Some airtable_insert \<Rightarrow>
          (case build_record None now2 application_data of
             Inl e \<Rightarrow> (False, table)
           | Inr record_data \<Rightarrow>
               (case airtable_insert record_data table of
                  Inl e \<Rightarrow> (False, table)
                | Inr table' \<Rightarrow> (True, table'))))"

text \<open>A table that keeps the inserted records in order and never fails.\<close>

definition list_table :: "((pstr \<times> pstr) list) list airtable" where
  "list_table record_data table = Inr (table @ [record_data])"

section \<open>CompanyResearcher\<close>

text \<open>
  The search client and the web are outside the program. \<open>GoogleSearch(params).get_dict()\<close>
  answers the parameters of a query with a dictionary that may hold \<open>organic_results\<close> and
  \<open>news_results\<close>, lists of items that may hold a \<open>snippet\<close> and a \<open>title\<close>, or it raises
  (as it does on every call when the import of the client failed and \<open>GoogleSearch\<close> is
  \<open>None\<close>). \<open>requests.get(url, headers=..., timeout=10)\<close> answers a URL with a status code
  and a page, or raises; the page is given as \<open>BeautifulSoup\<close> sees it, the elements in
  document order, each with its tag, its \<open>href\<close> attribute, its \<open>.string\<close>, its
  \<open>get_text(strip=True)\<close> and that of its \<open>find_parent()\<close>. What the methods print is left out.
\<close>

record search_params =
  sp_q :: pstr
  sp_api_key :: pstr
  sp_tbm :: "pstr option"
  sp_num :: nat

record search_item =
  item_snippet :: "pstr option"
  item_title :: "pstr option"

record search_results =
  organic_results :: "search_item list option"
  news_results :: "search_item list option"

type_synonym google_search = "search_params \<Rightarrow> py_exception + search_results"

record html_element =
  el_tag :: pstr
  el_href :: "pstr option"
  el_string :: "pstr option"
  el_text :: pstr
  el_parent_text :: "pstr option"

record http_response =
  status_code :: nat
  soup :: "html_element list"

type_synonym http_get = "pstr \<Rightarrow> py_exception + http_response"

text \<open>
  The dictionary \<open>info\<close> the research methods fill holds some of the keys \<open>basic_info\<close>,
  \<open>recent_news\<close> and \<open>company_culture\<close>; \<open>company_info\<close> of \<open>research_company\<close> always
  holds its five keys. \<open>info_merge\<close> and \<open>info_update\<close> are \<open>dict.update\<close>.
\<close>

record info_dict =
  i_basic_info :: "pstr option"
  i_recent_news :: "pstr list option"
  i_company_culture :: "pstr option"

record research_info =
  basic_info :: pstr
  recent_news :: "pstr list"
  company_culture :: pstr
  size_and_industry :: pstr
  recent_achievements :: "pstr list"

definition empty_info :: info_dict where
  "empty_info = \<lparr>i_basic_info = None, i_recent_news = None, i_company_culture = None\<rparr>"

definition or_else :: "'a option \<Rightarrow> 'a option \<Rightarrow> 'a option" where
  "or_else new old = (case new of None \<Rightarrow> old | Some v \<Rightarrow> Some v)"

definition info_merge :: "info_dict \<Rightarrow> info_dict \<Rightarrow> info_dict" where
  "info_merge info new =
     \<lparr>i_basic_info = or_else (i_basic_info new) (i_basic_info info),
      i_recent_news = or_else (i_recent_news new) (i_recent_news info),
      i_company_culture = or_else (i_company_culture new) (i_company_culture info)\<rparr>"

definition info_update :: "research_info \<Rightarrow> info_dict \<Rightarrow> research_info" where
  "info_update company_info new =
     company_info
       \<lparr>basic_info := (case i_basic_info new of None \<Rightarrow> basic_info company_info | Some v \<Rightarrow> v),
        recent_news := (case i_recent_news new of None \<Rightarrow> recent_news company_info | Some v \<Rightarrow> v),
        company_culture :=
          (case i_company_culture new of None \<Rightarrow> company_culture company_info | Some v \<Rightarrow> v)\<rparr>"

subsection \<open>\_research\_with\_serpapi\<close>

definition culture_parts :: "unicode_data \<Rightarrow> search_item list \<Rightarrow> pstr list" where
  "culture_parts ucd results =
     List.map_filter
       (\<lambda>result. case item_snippet result of
            None \<Rightarrow> None
          | Some snippet \<Rightarrow>
              (if str_contains (str_lower ucd snippet) (cps ''culture'')
                  \<or> str_contains (str_lower ucd snippet) (cps ''values'')
               then Some snippet else None))
       results"

text \<open>
  The three searches run in turn inside one \<open>try\<close>; when one raises, the handler leaves
  \<open>info\<close> as the searches before it filled it, and the method returns it.
\<close>

definition research_with_serpapi ::
  "unicode_data \<Rightarrow> google_search \<Rightarrow> pstr \<Rightarrow> pstr \<Rightarrow> info_dict" where
  "research_with_serpapi ucd search serpapi_key company_name =
     (case search \<lparr>sp_q = company_name @ cps '' company about'', sp_api_key = serpapi_key,
                    sp_tbm = None, sp_num = 5\<rparr> of
        Inl e \<Rightarrow> empty_info
      | Inr results \<Rightarrow>
          (let info1 =
                 (case organic_results results of
                    None \<Rightarrow> empty_info
                  | Some organic \<Rightarrow>
                      empty_info\<lparr>i_basic_info :=
                        Some (str_join (cps '' '') (List.map_filter item_snippet (take 3 organic)))\<rparr>)
           in case search \<lparr>sp_q = company_name @ cps '' news 2024'', sp_api_key = serpapi_key,
                            sp_tbm = Some (cps ''nws''), sp_num = 3\<rparr> of
                Inl e \<Rightarrow> info1
              | Inr news \<Rightarrow>
                  (let info2 =
                         (case news_results news of
                            None \<Rightarrow> info1
                          | Some items \<Rightarrow>
                              info1\<lparr>i_recent_news :=
                                Some (List.map_filter item_title (take 3 items))\<rparr>)
                   in case search \<lparr>sp_q = company_name @ cps '' company culture careers values'',
                                    sp_api_key = serpapi_key, sp_tbm = None, sp_num = 3\<rparr> of
                        Inl e \<Rightarrow> info2
                      | Inr culture \<Rightarrow>
                          (case organic_results culture of
                             None \<Rightarrow> info2
                           | Some organic \<Rightarrow>
                               info2\<lparr>i_company_culture :=
                                 Some (str_join (cps '' '')
                                         (culture_parts ucd (take 2 organic)))\<rparr>))))"

subsection \<open>\_scrape\_company\_website and \_research\_with\_scraping\<close>

definition string_matches :: "unicode_data \<Rightarrow> pstr list \<Rightarrow> pstr option \<Rightarrow> bool" where
  "string_matches ucd keywords text =
     (case text of
        None \<Rightarrow> False
      | Some t \<Rightarrow> t \<noteq> [] \<and> list_ex (\<lambda>keyword. str_contains (str_lower ucd t) keyword) keywords)"

fun about_loop :: "html_element list \<Rightarrow> info_dict \<Rightarrow> info_dict" where
  "about_loop [] info = info"
| "about_loop (section # rest) info =
     (case el_parent_text section of
        None \<Rightarrow> about_loop rest info
      | Some text_content \<Rightarrow>
          (if length text_content > 50
           then info\<lparr>i_basic_info := Some (take 500 text_content)\<rparr>
           else about_loop rest info))"

definition scrape_company_website :: "unicode_data \<Rightarrow> http_get \<Rightarrow> pstr \<Rightarrow> info_dict" where
  "scrape_company_website ucd get website_url =
     (case get website_url of
        Inl e \<Rightarrow> empty_info
      | Inr response \<Rightarrow>
          (if status_code response = 200
           then
             (let about_sections =
                    filter (\<lambda>el. (el_tag el = cps ''p'' \<or> el_tag el = cps ''div'')
                               \<and> string_matches ucd
                                    [cps ''about us'', cps ''our company'', cps ''our mission'']
                                    (el_string el))
                      (soup response);
                  info1 = (if about_sections \<noteq> [] then about_loop (take 2 about_sections) empty_info
                           else empty_info);
                  news_links =
                    filter (\<lambda>el. el_tag el = cps ''a'' \<and> el_href el \<noteq> None
                               \<and> string_matches ucd
                                    [cps ''news'', cps ''press'', cps ''announcement'']
                                    (el_string el))
                      (soup response)
              in if news_links \<noteq> []
                 then info1\<lparr>i_recent_news := Some (map el_text (take 3 news_links))\<rparr>
                 else info1)
           else empty_info))"

text \<open>
  The loop over the first ten links, with its \<open>break\<close>. \<open>href.split('url?q=')[1]\<close> raises
  IndexError when the split has a single piece, which the test before it excludes.
\<close>

fun find_company_website ::
  "unicode_data \<Rightarrow> pstr \<Rightarrow> pstr list \<Rightarrow> py_exception + pstr option" where
  "find_company_website ucd company_name [] = Inr None"
| "find_company_website ucd company_name (href # rest) =
     (if str_contains href (cps ''url?q='')
      then (case str_split href (cps ''url?q='') of
              p0 # p1 # ps \<Rightarrow>
                (let actual_url = hd (str_split p1 (cps ''&'')) in
                 if str_contains (str_lower ucd actual_url)
                      (filter (\<lambda>c. c \<noteq> 32) (str_lower ucd company_name))
                 then Inr (Some actual_url)
                 else find_company_website ucd company_name rest)
            | _ \<Rightarrow> Inl (PyExc (cps ''IndexError'') (cps ''list index out of range'') None))
      else find_company_website ucd company_name rest)"

definition research_with_scraping :: "unicode_data \<Rightarrow> http_get \<Rightarrow> pstr \<Rightarrow> info_dict" where
  "research_with_scraping ucd get company_name =
     (case get (cps ''https://www.google.com/search?q='' @ company_name
                  @ cps ''+official+website'') of
        Inl e \<Rightarrow> empty_info
      | Inr response \<Rightarrow>
          (if status_code response = 200
           then
             (let links = filter (\<lambda>el. el_tag el = cps ''a'' \<and> el_href el \<noteq> None) (soup response)
              in case find_company_website ucd company_name
                        (List.map_filter el_href (take 10 links)) of
                   Inl e \<Rightarrow> empty_info
                 | Inr None \<Rightarrow> empty_info
                 | Inr (Some company_website) \<Rightarrow>
                     (if company_website \<noteq> []
                      then info_merge empty_info (scrape_company_website ucd get company_website)
                      else empty_info))
           else empty_info))"

subsection \<open>\_format\_company\_info and research\_company\<close>

fun bullet_lines :: "pstr list \<Rightarrow> pstr" where
  "bullet_lines [] = []"
| "bullet_lines (item # rest) = [8226] @ cps '' '' @ item @ [10] @ bullet_lines rest"

definition format_company_info :: "pstr \<Rightarrow> research_info \<Rightarrow> pstr" where
  "format_company_info company_name info =
     cps ''Company Research: '' @ company_name @ [10, 10]
     @ (if basic_info info \<noteq> []
        then cps ''About the Company:'' @ [10] @ take 300 (basic_info info) @ cps ''...'' @ [10, 10]
        else [])
     @ (if recent_news info \<noteq> [] \<and> length (recent_news info) > 0
        then cps ''Recent News/Updates:'' @ [10] @ bullet_lines (take 3 (recent_news info)) @ [10]
        else [])
     @ (if company_culture info \<noteq> []
        then cps ''Company Culture/Values:'' @ [10] @ take 200 (company_culture info) @ cps ''...''
             @ [10, 10]
        else [])
     @ (if size_and_industry info \<noteq> []
        then cps ''Industry & Size:'' @ [10] @ size_and_industry info @ [10, 10]
        else [])
     @ (if recent_achievements info \<noteq> [] \<and> length (recent_achievements info) > 0
        then cps ''Recent Achievements:'' @ [10] @ bullet_lines (take 2 (recent_achievements info))
        else [])
     @ [10] @ cps ''[Use this information to show genuine interest and knowledge about the company in your cover letter]''"

definition disclaimer :: "pstr \<Rightarrow> pstr" where
  "disclaimer company_name =
     cps ''Limited company information available for '' @ company_name
     @ cps ''. Consider researching the company manually for better personalization.''"

text \<open>
  \<open>research_company\<close>: \<open>self.serpapi_key\<close> is \<open>None\<close> or a string, and counts as present
  when it is a non-empty string. The body of the \<open>try\<close> ends in \<open>return\<close>; the handler
  returns the disclaimer for any exception that reaches it.
\<close>

definition research_company_body ::
  "unicode_data \<Rightarrow> google_search \<Rightarrow> http_get \<Rightarrow> pstr option \<Rightarrow> pstr \<Rightarrow> py_exception + pstr" where
  "research_company_body ucd search get serpapi_key company_name =
     (let company_info =
            \<lparr>basic_info = [], recent_news = [], company_culture = [], size_and_industry = [],
             recent_achievements = []\<rparr>;
          company_info' =
            (case serpapi_key of
               None \<Rightarrow> info_update company_info (research_with_scraping ucd get company_name)
             | Some k \<Rightarrow>
                 (if k \<noteq> []
                  then info_update company_info (research_with_serpapi ucd search k company_name)
                  else info_update company_info (research_with_scraping ucd get company_name)))
      in Inr (format_company_info company_name company_info'))"

definition research_company ::
  "unicode_data \<Rightarrow> google_search \<Rightarrow> http_get \<Rightarrow> pstr option \<Rightarrow> pstr \<Rightarrow> py_exception + pstr" where
  "research_company ucd search get serpapi_key company_name =
     (case research_company_body ucd search get serpapi_key company_name of
        Inl e \<Rightarrow> Inr (disclaimer company_name)
      | Inr formatted \<Rightarrow> Inr formatted)"

section \<open>Properties and example environments\<close>

text \<open>
  The header or salutation token and the closing phrases a cover letter is checked for:
  the letter, trimmed, starts with \<open>[Your Name]\<close> or \<open>Dear\<close>; the letter, lowercased,
  contains \<open>sincerely\<close>, \<open>best regards\<close> or \<open>thank you\<close>.
\<close>

definition has_header :: "pstr \<Rightarrow> bool" where
  "has_header letter =
     (str_startswith (str_strip letter) (cps ''[Your Name]'')
      \<or> str_startswith (str_strip letter) (cps ''Dear''))"

definition has_closing :: "unicode_data \<Rightarrow> pstr \<Rightarrow> bool" where
  "has_closing ucd letter =
     (str_contains (str_lower ucd letter) (cps ''sincerely'')
      \<or> str_contains (str_lower ucd letter) (cps ''best regards'')
      \<or> str_contains (str_lower ucd letter) (cps ''thank you''))"

text \<open>
  The first character of a line that is not white space, and the lines whose first such
  character is a bullet marker: U+2022, \<open>-\<close> or \<open>*\<close>.
\<close>

definition first_nonspace :: "pstr \<Rightarrow> nat option" where
  "first_nonspace line = (case dropWhile isspace line of [] \<Rightarrow> None | c # cs \<Rightarrow> Some c)"

definition bullet_marked :: "pstr \<Rightarrow> bool" where
  "bullet_marked line =
     (first_nonspace line = Some 8226 \<or> first_nonspace line = Some 45
      \<or> first_nonspace line = Some 42)"

definition section_keys :: "pstr list" where
  "section_keys =
     [cps ''contact'', cps ''summary'', cps ''experience'', cps ''education'', cps ''skills'',
      cps ''projects'']"

text \<open>
  What \<open>research_company\<close> formats when no research method found anything: the title
  line and the closing note.
\<close>

definition empty_brief :: "pstr \<Rightarrow> pstr" where
  "empty_brief company_name =
     cps ''Company Research: '' @ company_name @ [10, 10, 10]
     @ cps ''[Use this information to show genuine interest and knowledge about the company in your cover letter]''"

text \<open>
  For the proofs about \<open>str_lower\<close>: the lowering without the rule of the final sigma,
  where U+03A3 always becomes U+03C3, and the map that sends U+03C2 to U+03C3. The two
  lowerings agree up to that map, and no ASCII text contains either sigma.
\<close>

definition lower_flat :: "unicode_data \<Rightarrow> pstr \<Rightarrow> pstr" where
  "lower_flat ucd s = concat (map (\<lambda>c. if c = 931 then [963] else lower_cp ucd c) s)"

definition sigma_fold :: "pstr \<Rightarrow> pstr" where
  "sigma_fold s = map (\<lambda>x. if x = 962 then 963 else x) s"

text \<open>
  Environments for the concrete runs. \<open>ascii_ucd\<close> is the character database cut down to
  ASCII: no lowercase mapping beyond, the ASCII letters cased, nothing case-ignorable.
  \<open>greek_ucd\<close> adds the Greek capitals U+0391..U+03A9, which lower to the code point 32
  further on, and the Greek small letters as cased, and has the apostrophe and the full
  stop case-ignorable, as the database has. \<open>fixed_reply\<close> is a chat model that answers
  every request with one fixed text. \<open>junk_libs\<close> are libraries for runs that reach none
  of them: readers that reject bytes that are no PDF and no ZIP file, and the decoding
  of ASCII bytes. \<open>no_search\<close> and \<open>no_web\<close> fail on every call.
\<close>

definition ascii_ucd :: unicode_data where
  "ascii_ucd =
     \<lparr>lower_map = (\<lambda>c. [c]),
      cased = (\<lambda>c. (65 \<le> c \<and> c \<le> 90) \<or> (97 \<le> c \<and> c \<le> 122)),
      case_ignorable = (\<lambda>c. False)\<rparr>"

definition greek_ucd :: unicode_data where
  "greek_ucd =
     \<lparr>lower_map = (\<lambda>c. if 913 \<le> c \<and> c \<le> 937 then [c + 32] else [c]),
      cased = (\<lambda>c. (65 \<le> c \<and> c \<le> 90) \<or> (97 \<le> c \<and> c \<le> 122)
                   \<or> (913 \<le> c \<and> c \<le> 937) \<or> (945 \<le> c \<and> c \<le> 969)),
      case_ignorable = (\<lambda>c. c = 39 \<or> c = 46)\<rparr>"

definition fixed_reply :: "pstr \<Rightarrow> unit chat_model" where
  "fixed_reply reply msgs s = (Inr reply, s)"

definition start_world :: "unit world" where
  "start_world = \<lparr>model_state = (), requests = []\<rparr>"

definition junk_libs :: libs where
  "junk_libs =
     \<lparr>pdf_reader = (\<lambda>bs. Inl (PyExc (cps ''PdfReadError'') (cps ''EOF marker not found'') None)),
      docx_document =
        (\<lambda>bs. Inl (PyExc (cps ''BadZipFile'') (cps ''File is not a zip file'') None)),
      utf8_decode = (\<lambda>bs. Inr bs)\<rparr>"

definition no_search :: google_search where
  "no_search params = Inl (PyExc (cps ''ConnectionError'') (cps ''network unreachable'') None)"

definition no_web :: http_get where
  "no_web url = Inl (PyExc (cps ''ConnectionError'') (cps ''network unreachable'') None)"

section \<open>Verification\<close>

subsection \<open>Facts about strings\<close>

lemma str_startswith_iff: "str_startswith s p \<longleftrightarrow> (\<exists>t. s = p @ t)"
  by (induction s p rule: str_startswith.induct) auto

lemma str_contains_iff: "str_contains s sub \<longleftrightarrow> (\<exists>a b. s = a @ sub @ b)"
proof (induction s)
  case Nil
  then show ?case by auto
next
  case (Cons c cs)
  show ?case
  proof
    assume "str_contains (c # cs) sub"
    then consider "str_startswith (c # cs) sub" | "str_contains cs sub" by auto
    then show "\<exists>a b. c # cs = a @ sub @ b"
    proof cases
      case 1
      then obtain t where "c # cs = sub @ t" by (auto simp: str_startswith_iff)
      then have "c # cs = [] @ sub @ t" by simp
      then show ?thesis by blast
    next
      case 2
      then obtain a b where "cs = a @ sub @ b" using Cons.IH by auto
      then have "c # cs = (c # a) @ sub @ b" by simp
      then show ?thesis by blast
    qed
  next
    assume "\<exists>a b. c # cs = a @ sub @ b"
    then obtain a b where ab: "c # cs = a @ sub @ b" by auto
    show "str_contains (c # cs) sub"
    proof (cases a)
      case Nil
      with ab have "str_startswith (c # cs) sub" by (auto simp: str_startswith_iff)
      then show ?thesis by simp
    next
      case (Cons x a')
      with ab have "cs = a' @ sub @ b" by simp
      then have "str_contains cs sub" using Cons.IH by auto
      then show ?thesis by simp
    qed
  qed
qed

lemma str_split_acc_nonempty: "str_split_acc sep cur s \<noteq> []"
  by (induction sep cur s rule: str_split_acc.induct) auto

lemma str_split_nonempty: "str_split s sep \<noteq> []"
  by (simp add: str_split_def str_split_acc_nonempty)

lemma isspace_lower_cp: "isspace w \<Longrightarrow> lower_cp ucd w = [w]"
  by (auto simp: lower_cp_def isspace_def)

lemma lower_flat_append: "lower_flat ucd (a @ b) = lower_flat ucd a @ lower_flat ucd b"
  by (simp add: lower_flat_def)

lemma lower_flat_Cons_space: "isspace w \<Longrightarrow> lower_flat ucd (w # s) = w # lower_flat ucd s"
  by (auto simp: lower_flat_def isspace_lower_cp isspace_def)

lemma lower_flat_snoc_space: "isspace w \<Longrightarrow> lower_flat ucd (s @ [w]) = lower_flat ucd s @ [w]"
  using lower_flat_Cons_space[of w ucd "[]"] by (simp add: lower_flat_append lower_flat_def)

lemma sigma_fold_eq_append:
  "sigma_fold xs = a @ b \<Longrightarrow> \<exists>a' b'. xs = a' @ b' \<and> sigma_fold a' = a \<and> sigma_fold b' = b"
  unfolding sigma_fold_def by (simp add: map_eq_append_conv) blast

lemma sigma_fold_append: "sigma_fold (a @ b) = sigma_fold a @ sigma_fold b"
  by (simp add: sigma_fold_def)

lemma sigma_fold_lower_from:
  "sigma_fold (lower_from ucd before s) = sigma_fold (lower_flat ucd s)"
proof (induction s arbitrary: before)
  case Nil
  then show ?case by (simp add: lower_flat_def)
next
  case (Cons c s)
  have "lower_flat ucd (c # s) = (if c = 931 then [963] else lower_cp ucd c) @ lower_flat ucd s"
    by (simp add: lower_flat_def)
  then show ?case
    by (simp add: sigma_fold_append Cons.IH) (simp add: sigma_fold_def)
qed

lemma sigma_fold_id: "\<forall>x\<in>set c. x \<noteq> 962 \<and> x \<noteq> 963 \<Longrightarrow> sigma_fold c = c"
  by (simp add: sigma_fold_def map_idI)

lemma sigma_fold_inv:
  assumes "\<forall>x\<in>set c. x \<noteq> 962 \<and> x \<noteq> 963" "sigma_fold c' = c"
  shows "c' = c"
proof -
  have "\<forall>x\<in>set c'. x \<noteq> 962 \<and> x \<noteq> 963"
  proof
    fix x assume "x \<in> set c'"
    then have "(if x = 962 then 963 else x) \<in> set c"
      using assms(2) by (auto simp: sigma_fold_def)
    then show "x \<noteq> 962 \<and> x \<noteq> 963" using assms(1) by (auto split: if_splits)
  qed
  then have "sigma_fold c' = c'" by (rule sigma_fold_id)
  with assms(2) show ?thesis by simp
qed

lemma str_contains_sigma_fold:
  assumes "\<forall>x\<in>set c. x \<noteq> 962 \<and> x \<noteq> 963"
  shows "str_contains (sigma_fold xs) c \<longleftrightarrow> str_contains xs c"
proof
  assume "str_contains xs c"
  then obtain a b where "xs = a @ c @ b" by (auto simp: str_contains_iff)
  then have "sigma_fold xs = sigma_fold a @ c @ sigma_fold b"
    using sigma_fold_id[OF assms] by (simp add: sigma_fold_append)
  then show "str_contains (sigma_fold xs) c" unfolding str_contains_iff by blast
next
  assume "str_contains (sigma_fold xs) c"
  then obtain a b where "sigma_fold xs = a @ (c @ b)"
    unfolding str_contains_iff by blast
  then obtain a' r where 1: "xs = a' @ r" "sigma_fold r = c @ b"
    using sigma_fold_eq_append by blast
  then obtain c' b' where 2: "r = c' @ b'" "sigma_fold c' = c"
    using sigma_fold_eq_append by blast
  have "c' = c" using sigma_fold_inv[OF assms] 2(2) by simp
  then have "xs = a' @ c @ b'" using 1(1) 2(1) by simp
  then show "str_contains xs c" unfolding str_contains_iff by blast
qed

lemma str_contains_lower_flat:
  assumes "\<forall>x\<in>set c. x \<noteq> 962 \<and> x \<noteq> 963"
  shows "str_contains (str_lower ucd s) c \<longleftrightarrow> str_contains (lower_flat ucd s) c"
proof -
  have "str_contains (str_lower ucd s) c \<longleftrightarrow> str_contains (sigma_fold (str_lower ucd s)) c"
    using str_contains_sigma_fold[OF assms] by simp
  also have "\<dots> \<longleftrightarrow> str_contains (sigma_fold (lower_flat ucd s)) c"
    by (simp add: str_lower_def sigma_fold_lower_from)
  also have "\<dots> \<longleftrightarrow> str_contains (lower_flat ucd s) c"
    using str_contains_sigma_fold[OF assms] by simp
  finally show ?thesis .
qed

lemma str_rstrip_snoc:
  "str_rstrip (xs @ [x]) = (if isspace x then str_rstrip xs else xs @ [x])"
  by (simp add: str_rstrip_def)

lemma str_rstrip_Nil: "str_rstrip [] = []"
  by (simp add: str_rstrip_def)

lemma str_rstrip_append_nonspace:
  "p \<noteq> [] \<Longrightarrow> \<not> isspace (last p) \<Longrightarrow> str_rstrip (p @ u) = p @ str_rstrip u"
proof (induction u rule: rev_induct)
  case Nil
  then obtain q x where "p = q @ [x]" by (metis append_butlast_last_id)
  with Nil show ?case by (simp add: str_rstrip_snoc str_rstrip_Nil)
next
  case (snoc x xs)
  have "str_rstrip (p @ xs @ [x]) = str_rstrip ((p @ xs) @ [x])" by simp
  also have "\<dots> = (if isspace x then str_rstrip (p @ xs) else (p @ xs) @ [x])"
    by (rule str_rstrip_snoc)
  finally show ?case using snoc by (simp add: str_rstrip_snoc)
qed

lemma str_lstrip_nonspace:
  "p \<noteq> [] \<Longrightarrow> \<not> isspace (hd p) \<Longrightarrow> str_lstrip (p @ u) = p @ u"
  by (cases p) (auto simp: str_lstrip_def)

lemma str_strip_token:
  "p \<noteq> [] \<Longrightarrow> \<not> isspace (hd p) \<Longrightarrow> \<not> isspace (last p) \<Longrightarrow> str_strip (p @ u) = p @ str_rstrip u"
  by (simp add: str_strip_def str_lstrip_nonspace str_rstrip_append_nonspace)

lemma str_rstrip_decomp: "\<exists>ws. s = str_rstrip s @ ws \<and> (\<forall>w\<in>set ws. isspace w)"
proof (induction s rule: rev_induct)
  case Nil
  then show ?case by (simp add: str_rstrip_Nil)
next
  case (snoc x xs)
  then obtain ws where ws: "xs = str_rstrip xs @ ws" "\<forall>w\<in>set ws. isspace w" by blast
  show ?case
  proof (cases "isspace x")
    case True
    have "xs @ [x] = str_rstrip xs @ (ws @ [x])" using ws(1) by simp
    then show ?thesis using ws(2) True by (auto simp: str_rstrip_snoc intro!: exI[of _ "ws @ [x]"])
  next
    case False
    then show ?thesis by (simp add: str_rstrip_snoc)
  qed
qed

lemma str_startswith_strip_append:
  assumes "str_startswith (str_strip s) p" "p \<noteq> []" "\<not> isspace (last p)"
  shows "str_startswith (str_strip (s @ t)) p"
proof -
  from assms(1) obtain r where r: "str_strip s = p @ r" by (auto simp: str_startswith_iff)
  obtain ws where ws: "str_lstrip s = str_rstrip (str_lstrip s) @ ws"
    using str_rstrip_decomp by blast
  have l: "str_lstrip s = p @ r @ ws" using ws r by (simp add: str_strip_def)
  then have ne: "dropWhile isspace s \<noteq> []" using assms(2) by (auto simp: str_lstrip_def)
  then have "\<exists>x\<in>set s. \<not> isspace x" by (metis dropWhile_eq_Nil_conv)
  then have "dropWhile isspace (s @ t) = dropWhile isspace s @ t" by (metis dropWhile_append1)
  then have "str_lstrip (s @ t) = p @ (r @ ws @ t)" using l by (simp add: str_lstrip_def)
  then have "str_strip (s @ t) = p @ str_rstrip (r @ ws @ t)"
    using assms(2,3) by (simp add: str_strip_def str_rstrip_append_nonspace)
  then show ?thesis by (simp add: str_startswith_iff)
qed

lemma lower_flat_contains_lstrip:
  assumes "c \<noteq> []" "\<not> isspace (hd c)"
  shows "str_contains (lower_flat ucd s) c \<Longrightarrow> str_contains (lower_flat ucd (str_lstrip s)) c"
proof (induction s)
  case Nil
  then show ?case by (simp add: str_lstrip_def)
next
  case (Cons w s)
  show ?case
  proof (cases "isspace w")
    case True
    obtain a c' where c: "c = a # c'" using assms(1) by (cases c) auto
    have "a \<noteq> w" using assms(2) c True by auto
    with Cons.prems True c have "str_contains (lower_flat ucd s) c"
      by (simp add: lower_flat_Cons_space)
    then show ?thesis using Cons.IH True by (simp add: str_lstrip_def)
  next
    case False
    then show ?thesis using Cons.prems by (simp add: str_lstrip_def)
  qed
qed

lemma lower_flat_contains_rstrip:
  assumes "c \<noteq> []" "\<not> isspace (last c)"
  shows "str_contains (lower_flat ucd s) c \<Longrightarrow> str_contains (lower_flat ucd (str_rstrip s)) c"
proof (induction s rule: rev_induct)
  case Nil
  then show ?case by (simp add: str_rstrip_Nil)
next
  case (snoc w s)
  show ?case
  proof (cases "isspace w")
    case True
    have "str_contains (lower_flat ucd s @ [w]) c"
      using snoc.prems by (simp add: lower_flat_snoc_space True)
    then obtain a b where ab: "lower_flat ucd s @ [w] = a @ c @ b"
      unfolding str_contains_iff by blast
    have "b \<noteq> []"
    proof
      assume "b = []"
      with ab have "last (lower_flat ucd s @ [w]) = last (a @ c)" by simp
      then have "w = last c" using assms(1) by simp
      with True assms(2) show False by simp
    qed
    then obtain b' x where "b = b' @ [x]" by (metis append_butlast_last_id)
    with ab have "lower_flat ucd s = a @ c @ b'" by (metis append_assoc butlast_snoc)
    then have "str_contains (lower_flat ucd s) c" by (auto simp: str_contains_iff)
    then show ?thesis using snoc.IH True by (simp add: str_rstrip_snoc)
  next
    case False
    then show ?thesis using snoc.prems by (simp add: str_rstrip_snoc)
  qed
qed

lemma str_contains_strip:
  assumes "c \<noteq> []" "\<not> isspace (hd c)" "\<not> isspace (last c)" "\<forall>x\<in>set c. x \<noteq> 962 \<and> x \<noteq> 963"
    and "str_contains (str_lower ucd s) c"
  shows "str_contains (str_lower ucd (str_strip s)) c"
proof -
  have "str_contains (lower_flat ucd s) c"
    using assms(4,5) by (simp add: str_contains_lower_flat)
  then have "str_contains (lower_flat ucd (str_strip s)) c"
    using assms(1-3)
    by (simp add: str_strip_def lower_flat_contains_lstrip lower_flat_contains_rstrip)
  then show ?thesis using assms(4) by (simp add: str_contains_lower_flat)
qed

subsection \<open>The post-processing of generate\_cover\_letter\<close>

lemma str_startswith_strip_strip:
  assumes "str_startswith (str_strip s) p" "p \<noteq> []" "\<not> isspace (hd p)" "\<not> isspace (last p)"
  shows "str_startswith (str_strip (str_strip s)) p"
proof -
  from assms(1) obtain r where "str_strip s = p @ r" by (auto simp: str_startswith_iff)
  then have "str_strip (str_strip s) = p @ str_rstrip r"
    using assms(2-4) by (simp add: str_strip_token)
  then show ?thesis by (simp add: str_startswith_iff)
qed

lemma header_token: "\<exists>rest. header = cps ''[Your Name]'' @ rest"
  by (simp add: header_def nl_def)

lemma token_facts:
  "cps ''[Your Name]'' \<noteq> []" "\<not> isspace (hd (cps ''[Your Name]''))"
  "\<not> isspace (last (cps ''[Your Name]''))"
  "cps ''Dear'' \<noteq> []" "\<not> isspace (hd (cps ''Dear''))" "\<not> isspace (last (cps ''Dear''))"
  by (simp_all add: cps_def isspace_def)

lemma closing_facts:
  "c \<in> set closings \<Longrightarrow>
   c \<noteq> [] \<and> \<not> isspace (hd c) \<and> \<not> isspace (last c) \<and> (\<forall>x\<in>set c. x \<noteq> 962 \<and> x \<noteq> 963)"
  by (auto simp: closings_def cps_def isspace_def)

lemma has_closing_iff:
  "has_closing ucd letter \<longleftrightarrow> list_ex (\<lambda>closing. str_contains (str_lower ucd letter) closing) closings"
  by (simp add: has_closing_def closings_def)

lemma closing_block_lower:
  "str_contains (str_lower ucd (s @ [10, 10] @ cps ''Sincerely,'' @ [10] @ cps ''[Your Name]''))
     (cps ''sincerely'')"
proof -
  have "lower_flat ucd ([10, 10] @ cps ''Sincerely,'' @ [10] @ cps ''[Your Name]'')
        = [10, 10] @ cps ''sincerely'' @ (cps '','' @ [10] @ cps ''[your name]'')"
    by (simp add: lower_flat_def lower_cp_def cps_def)
  then have "lower_flat ucd (s @ [10, 10] @ cps ''Sincerely,'' @ [10] @ cps ''[Your Name]'')
        = (lower_flat ucd s @ [10, 10]) @ cps ''sincerely'' @ (cps '','' @ [10] @ cps ''[your name]'')"
    by (simp only: lower_flat_append append_assoc)
  then have "str_contains
      (lower_flat ucd (s @ [10, 10] @ cps ''Sincerely,'' @ [10] @ cps ''[Your Name]''))
      (cps ''sincerely'')"
    unfolding str_contains_iff by blast
  moreover have "\<forall>x\<in>set (cps ''sincerely''). x \<noteq> 962 \<and> x \<noteq> 963"
    by (simp add: cps_def)
  ultimately show ?thesis by (simp add: str_contains_lower_flat)
qed

lemma format_cover_letter_has_header: "has_header (format_cover_letter ucd raw)"
proof -
  define cl1 where "cl1 =
    (if \<not> str_startswith (str_strip raw) (cps ''[Your Name]'')
        \<and> \<not> str_startswith (str_strip raw) (cps ''Dear'')
     then header @ raw else raw)"
  have "str_startswith (str_strip cl1) (cps ''[Your Name]'')
        \<or> str_startswith (str_strip cl1) (cps ''Dear'')"
  proof (cases "\<not> str_startswith (str_strip raw) (cps ''[Your Name]'')
        \<and> \<not> str_startswith (str_strip raw) (cps ''Dear'')")
    case True
    obtain rest where "header = cps ''[Your Name]'' @ rest" using header_token by blast
    then have "cl1 = cps ''[Your Name]'' @ (rest @ raw)"
      using True by (simp add: cl1_def)
    then have "str_strip cl1 = cps ''[Your Name]'' @ str_rstrip (rest @ raw)"
      using str_strip_token[OF token_facts(1-3)] by simp
    then show ?thesis by (simp add: str_startswith_iff)
  next
    case False
    then show ?thesis by (auto simp: cl1_def)
  qed
  then have "\<And>t. str_startswith (str_strip (str_strip (cl1 @ t))) (cps ''[Your Name]'')
        \<or> str_startswith (str_strip (str_strip (cl1 @ t))) (cps ''Dear'')"
    by (meson str_startswith_strip_append str_startswith_strip_strip token_facts)
  from this[of "[]"] this[of "[10, 10] @ cps ''Sincerely,'' @ [10] @ cps ''[Your Name]''"]
  show ?thesis
    unfolding has_header_def format_cover_letter_def Let_def cl1_def[symmetric]
    by (simp split: if_splits)
qed

lemma format_cover_letter_has_closing: "has_closing ucd (format_cover_letter ucd raw)"
proof -
  define cl1 where "cl1 =
    (if \<not> str_startswith (str_strip raw) (cps ''[Your Name]'')
        \<and> \<not> str_startswith (str_strip raw) (cps ''Dear'')
     then header @ raw else raw)"
  define cl2 where "cl2 =
    (if \<not> list_ex (\<lambda>closing. str_contains (str_lower ucd cl1) closing) closings
     then cl1 @ [10, 10] @ cps ''Sincerely,'' @ [10] @ cps ''[Your Name]'' else cl1)"
  have "\<exists>c\<in>set closings. str_contains (str_lower ucd cl2) c"
  proof (cases "list_ex (\<lambda>closing. str_contains (str_lower ucd cl1) closing) closings")
    case True
    then show ?thesis by (simp add: cl2_def list_ex_iff)
  next
    case False
    then have "cl2 = cl1 @ [10, 10] @ cps ''Sincerely,'' @ [10] @ cps ''[Your Name]''"
      by (simp add: cl2_def)
    then have "str_contains (str_lower ucd cl2) (cps ''sincerely'')"
      using closing_block_lower[of ucd cl1] by simp
    then show ?thesis by (auto simp: closings_def)
  qed
  then obtain c where c: "c \<in> set closings" "str_contains (str_lower ucd cl2) c"
    by blast
  then have "str_contains (str_lower ucd (str_strip cl2)) c"
    using closing_facts[OF c(1)] by (intro str_contains_strip) simp_all
  with c(1) have "\<exists>c\<in>set closings. str_contains (str_lower ucd (str_strip cl2)) c"
    by blast
  then obtain c where "c \<in> set closings" "str_contains (str_lower ucd (str_strip cl2)) c"
    by blast
  then have "has_closing ucd (str_strip cl2)" by (auto simp: has_closing_iff list_ex_iff)
  then show ?thesis
    unfolding format_cover_letter_def Let_def cl1_def[symmetric] cl2_def[symmetric] .
qed

lemma generate_cover_letter_result:
  "fst (generate_cover_letter ucd llm resume jd company info w) = Inr letter \<Longrightarrow>
   \<exists>raw. letter = format_cover_letter ucd raw"
  by (auto simp: generate_cover_letter_def Let_def split: prod.splits sum.splits)

lemma invoke_returns:
  "\<forall>msgs s. \<exists>content. fst (llm msgs s) = Inr content \<Longrightarrow> \<exists>content w'. invoke llm msgs w = (Inr content, w')"
proof -
  assume a: "\<forall>msgs s. \<exists>content. fst (llm msgs s) = Inr content"
  obtain r s' where rs: "llm msgs (model_state w) = (r, s')" by (cases "llm msgs (model_state w)")
  with a obtain content where "r = Inr content" by (metis fst_conv)
  with rs show ?thesis by (simp add: invoke_def)
qed

lemma generate_cover_letter_returns:
  assumes "\<forall>msgs s. \<exists>content. fst (llm msgs s) = Inr content"
  shows "\<exists>letter. fst (generate_cover_letter ucd llm resume jd company info w) = Inr letter"
proof -
  obtain c1 w1 where 1: "invoke llm (bullets_prompt resume jd) w = (Inr c1, w1)"
    using invoke_returns[OF assms] by blast
  define prompt2 where "prompt2 = letter_prompt jd company
     (if info \<noteq> [] then [10, 10] @ cps ''COMPANY RESEARCH:'' @ [10] @ info else [])
     (str_join nl (take 5 (bullets_loop (str_split c1 nl) []))) resume"
  obtain c2 w2 where 2: "invoke llm prompt2 w1 = (Inr c2, w2)"
    using invoke_returns[OF assms] by blast
  show ?thesis
    using 1 2 by (simp add: generate_cover_letter_def extract_resume_bullets_def Let_def prompt2_def)
qed

text \<open>
  Claim C1. Whatever text the chat model returns, the letter \<open>_format_cover_letter\<close> makes
  of it starts, after trimming, with \<open>[Your Name]\<close> or \<open>Dear\<close>, and contains, lowercased,
  one of \<open>sincerely\<close>, \<open>best regards\<close>, \<open>thank you\<close>. Every letter
  \<open>generate_cover_letter\<close> returns is such a letter, and it returns one whenever the chat
  model answers its requests.
\<close>

theorem generate_cover_letter_header_and_closing:
  "(has_header (format_cover_letter ucd raw) \<and> has_closing ucd (format_cover_letter ucd raw))
   \<and> (\<forall>letter. fst (generate_cover_letter ucd llm resume jd company info w) = Inr letter
         \<longrightarrow> has_header letter \<and> has_closing ucd letter)
   \<and> ((\<forall>msgs s. \<exists>content. fst (llm msgs s) = Inr content)
         \<longrightarrow> (\<exists>letter. fst (generate_cover_letter ucd llm resume jd company info w) = Inr letter))"
  using format_cover_letter_has_header format_cover_letter_has_closing
    generate_cover_letter_result generate_cover_letter_returns
  by metis

theorem generate_cover_letter_header_and_closing_witness:
  "\<exists>letter. fst (generate_cover_letter ascii_ucd (fixed_reply (cps ''I am a fit.''))
                (cps ''resume'') (cps ''job'') (cps ''Acme'') []
                start_world) = Inr letter
     \<and> has_header letter \<and> has_closing ascii_ucd letter"
proof -
  have h: "\<forall>msgs s. \<exists>content. fst (fixed_reply (cps ''I am a fit.'') msgs s) = Inr content"
    by (simp add: fixed_reply_def)
  show ?thesis
    using h generate_cover_letter_header_and_closing
      [of ascii_ucd "[]" "fixed_reply (cps ''I am a fit.'')" "cps ''resume''" "cps ''job''"
          "cps ''Acme''" "[]" start_world]
    by blast
qed

subsection \<open>Bullets and customize\_for\_company\<close>

lemma str_startswith_strip_single:
  "str_startswith (str_strip line) [c] \<longleftrightarrow> first_nonspace line = Some c"
proof (cases "dropWhile isspace line")
  case Nil
  show ?thesis
    unfolding str_strip_def str_lstrip_def first_nonspace_def Nil
    by (simp add: str_rstrip_Nil)
next
  case (Cons x xs)
  then have "\<not> isspace x" by (metis hd_dropWhile list.sel(1) list.distinct(1))
  then have "str_rstrip ([x] @ xs) = [x] @ str_rstrip xs"
    by (intro str_rstrip_append_nonspace) simp_all
  then show ?thesis
    unfolding str_strip_def str_lstrip_def first_nonspace_def Cons by auto
qed

lemma bullets_loop_eq:
  "bullets_loop lines bullets = bullets @ map str_strip (filter bullet_marked lines)"
proof (induction lines arbitrary: bullets)
  case Nil
  then show ?case by simp
next
  case (Cons line rest)
  have m: "cps ''-'' = [45]" "cps ''*'' = [42]" by (simp_all add: cps_def)
  show ?case
    by (simp add: Cons.IH Let_def m str_startswith_strip_single bullet_marked_def)
qed

lemma example_bullets:
  "bullets_loop
     (str_split ([8226] @ cps '' Led X'' @ [10] @ cps ''random prose'' @ [10] @ cps ''- Built Y'') nl) []
   = [[8226] @ cps '' Led X'', cps ''- Built Y'']"
  by (simp add: str_split_def nl_def cps_def str_strip_def str_lstrip_def str_rstrip_def isspace_def)

text \<open>
  Claim C5. When the chat model answers with the text \<open>raw\<close>, \<open>extract_resume_bullets\<close>
  returns the lines of \<open>raw\<close> whose first character that is not white space is U+2022,
  \<open>-\<close> or \<open>*\<close>, each trimmed, in their order and with repetitions kept; it returns the
  empty list when no line qualifies; and on the lines \<open>U+2022 Led X\<close>, \<open>random prose\<close>,
  \<open>- Built Y\<close> it returns the first and the third.
\<close>

theorem extract_resume_bullets_selects:
  "(invoke llm (bullets_prompt resume jd) w = (Inr raw, w') \<longrightarrow>
      extract_resume_bullets llm resume jd w
        = (Inr (map str_strip (filter bullet_marked (str_split raw nl))), w'))
   \<and> (invoke llm (bullets_prompt resume jd) w = (Inr raw, w')
        \<and> filter bullet_marked (str_split raw nl) = [] \<longrightarrow>
      extract_resume_bullets llm resume jd w = (Inr [], w'))
   \<and> (invoke llm (bullets_prompt resume jd) w
         = (Inr ([8226] @ cps '' Led X'' @ [10] @ cps ''random prose'' @ [10] @ cps ''- Built Y''), w')
       \<longrightarrow> extract_resume_bullets llm resume jd w
             = (Inr [[8226] @ cps '' Led X'', cps ''- Built Y''], w'))"
  using example_bullets by (simp add: extract_resume_bullets_def bullets_loop_eq)

theorem extract_resume_bullets_selects_witness:
  "extract_resume_bullets
     (fixed_reply ([8226] @ cps '' Led X'' @ [10] @ cps ''random prose'' @ [10] @ cps ''- Built Y''))
     (cps ''resume'') (cps ''job'') start_world
   = (Inr [[8226] @ cps '' Led X'', cps ''- Built Y''],
      \<lparr>model_state = (), requests = [bullets_prompt (cps ''resume'') (cps ''job'')]\<rparr>)"
proof -
  have h: "invoke
     (fixed_reply ([8226] @ cps '' Led X'' @ [10] @ cps ''random prose'' @ [10] @ cps ''- Built Y''))
     (bullets_prompt (cps ''resume'') (cps ''job'')) start_world
    = (Inr ([8226] @ cps '' Led X'' @ [10] @ cps ''random prose'' @ [10] @ cps ''- Built Y''),
       \<lparr>model_state = (), requests = [bullets_prompt (cps ''resume'') (cps ''job'')]\<rparr>)"
    by (simp add: invoke_def fixed_reply_def start_world_def)
  show ?thesis
    using h extract_resume_bullets_selects
      [of "fixed_reply ([8226] @ cps '' Led X'' @ [10] @ cps ''random prose'' @ [10] @ cps ''- Built Y'')"
          "cps ''resume''" "cps ''job''" start_world
          "[8226] @ cps '' Led X'' @ [10] @ cps ''random prose'' @ [10] @ cps ''- Built Y''"
          "\<lparr>model_state = (), requests = [bullets_prompt (cps ''resume'') (cps ''job'')]\<rparr>"]
    by blast
qed

text \<open>
  Claim C10. With an empty company brief \<open>customize_for_company\<close> returns the letter it
  was given and leaves the world as it was: no request is sent to the chat model.
\<close>

theorem customize_for_company_empty_brief:
  "customize_for_company llm letter [] w = (Inr letter, w)
   \<and> requests (snd (customize_for_company llm letter [] w)) = requests w"
  by (simp add: customize_for_company_def)

text \<open>
  Claim C2, as stated, fails: with a non-empty brief and a chat model that answers
  \<open>OK\<close>, \<open>customize_for_company\<close> returns \<open>OK\<close>, which has neither the header or
  salutation nor a closing phrase, although the letter it was given has both.
\<close>

theorem customize_for_company_not_formatted:
  "customize_for_company (fixed_reply (cps ''OK'')) (cps ''Dear team, thank you'')
       (cps ''Acme makes anvils'') start_world
     = (Inr (cps ''OK''),
        \<lparr>model_state = (),
         requests = [customize_prompt (cps ''Dear team, thank you'') (cps ''Acme makes anvils'')]\<rparr>)
   \<and> \<not> has_header (cps ''OK'') \<and> \<not> has_closing ascii_ucd (cps ''OK'')"
  by (simp add: customize_for_company_def invoke_def fixed_reply_def start_world_def
      has_header_def has_closing_def cps_def str_strip_def str_lstrip_def str_rstrip_def
      isspace_def str_lower_def lower_cp_def ascii_ucd_def)

text \<open>
  Claim C2, amended. \<open>customize_for_company\<close> returns the letter it was given when the
  brief is empty, and otherwise the outcome of one request to the chat model as it is,
  with no post-processing. The text it returns has the header and a closing phrase
  exactly when the text it passes on has them: the given letter for an empty brief, the
  chat model's answer otherwise.
\<close>

theorem customize_for_company_verbatim:
  "(brief = [] \<longrightarrow> customize_for_company llm letter brief w = (Inr letter, w))
   \<and> (brief \<noteq> [] \<longrightarrow>
        fst (customize_for_company llm letter brief w)
          = fst (llm (customize_prompt letter brief) (model_state w))
        \<and> requests (snd (customize_for_company llm letter brief w))
          = requests w @ [customize_prompt letter brief])
   \<and> (\<forall>result. fst (customize_for_company llm letter brief w) = Inr result \<longrightarrow>
        (has_header result \<and> has_closing ucd result) =
        (if brief = [] then has_header letter \<and> has_closing ucd letter
         else \<exists>raw. fst (llm (customize_prompt letter brief) (model_state w)) = Inr raw
                \<and> has_header raw \<and> has_closing ucd raw))"
  by (auto simp: customize_for_company_def invoke_def split: prod.splits)

theorem customize_for_company_verbatim_witness:
  "customize_for_company (fixed_reply (cps ''OK'')) (cps ''Dear team, thank you'') [] start_world
     = (Inr (cps ''Dear team, thank you''), start_world)
   \<and> fst (customize_for_company (fixed_reply (cps ''OK'')) (cps ''Dear team, thank you'')
             (cps ''Acme'') start_world) = Inr (cps ''OK'')"
proof -
  have a: "fst (fixed_reply (cps ''OK'')
             (customize_prompt (cps ''Dear team, thank you'') (cps ''Acme''))
             (model_state start_world)) = Inr (cps ''OK'')"
    by (simp add: fixed_reply_def)
  have b: "cps ''Acme'' \<noteq> []" by (simp add: cps_def)
  show ?thesis
    using a b
      customize_for_company_verbatim
        [of "[]" "fixed_reply (cps ''OK'')" "cps ''Dear team, thank you''" start_world ascii_ucd]
      customize_for_company_verbatim
        [of "cps ''Acme''" "fixed_reply (cps ''OK'')" "cps ''Dear team, thank you''" start_world
            ascii_ucd]
    by simp
qed

subsection \<open>Sections\<close>

lemma dict_set_keys: "k \<in> set (map fst d) \<Longrightarrow> map fst (dict_set d k v) = map fst d"
  by (induction d) force+

lemma find_section_key:
  "find_section kws line_lower line = Some k \<Longrightarrow> k \<in> set (map fst kws)"
  by (induction kws line_lower line rule: find_section.induct) (auto split: if_splits)

lemma section_keywords_keys: "map fst section_keywords = section_keys"
  by (simp add: section_keywords_def section_keys_def)

lemma section_found_key: "section_found ucd line = Some k \<Longrightarrow> k \<in> set section_keys"
  using find_section_key[of section_keywords] by (simp add: section_found_def section_keywords_keys)

lemma save_section_keys:
  assumes "map fst sections = section_keys" "\<And>k. cur = Some k \<Longrightarrow> k \<in> set section_keys"
  shows "map fst (save_section sections cur content) = section_keys"
proof (cases cur)
  case None
  then show ?thesis using assms(1) by simp
next
  case (Some k)
  then have "k \<in> set (map fst sections)" using assms by simp
  then show ?thesis using Some assms(1) by (simp add: dict_set_keys)
qed

lemma sections_loop_keys:
  assumes "map fst sections = section_keys" "\<And>k. cur = Some k \<Longrightarrow> k \<in> set section_keys"
    and "sections_loop ucd lines sections cur content = (sections', cur', content')"
  shows "map fst sections' = section_keys \<and> (\<forall>k. cur' = Some k \<longrightarrow> k \<in> set section_keys)"
  using assms
proof (induction lines arbitrary: sections cur content)
  case Nil
  then show ?case by auto
next
  case (Cons line rest)
  show ?case
  proof (cases "section_found ucd line")
    case None
    then show ?thesis using Cons.prems Cons.IH[of sections cur] by (auto split: if_splits)
  next
    case (Some found)
    have 1: "map fst (save_section sections cur content) = section_keys"
      using Cons.prems(1,2) by (rule save_section_keys)
    have 2: "\<And>k. Some found = Some k \<Longrightarrow> k \<in> set section_keys"
      using Some section_found_key by auto
    from Cons.prems(3) Some
    have "sections_loop ucd rest (save_section sections cur content) (Some found) []
            = (sections', cur', content')" by simp
    from Cons.IH[OF 1 2 this] show ?thesis .
  qed
qed

lemma extract_key_sections_keys: "map fst (extract_key_sections ucd text) = section_keys"
proof -
  obtain sections cur content where
    r: "sections_loop ucd (str_split text nl) init_sections None [] = (sections, cur, content)"
    by (metis prod_cases3)
  have i: "map fst init_sections = section_keys" by (simp add: init_sections_def section_keys_def)
  have "map fst sections = section_keys \<and> (\<forall>k. cur = Some k \<longrightarrow> k \<in> set section_keys)"
    using sections_loop_keys[OF i _ r] by simp
  then have "map fst (save_section sections cur content) = section_keys"
    by (intro save_section_keys) auto
  then show ?thesis by (simp add: extract_key_sections_def r)
qed

lemma sections_loop_no_header:
  "\<forall>line\<in>set lines. section_found ucd line = None \<Longrightarrow>
   sections_loop ucd lines sections None [] = (sections, None, [])"
  by (induction lines) auto

text \<open>
  Claim C4. For every text the result of \<open>extract_key_sections\<close> has the six section keys,
  \<open>contact\<close>, \<open>summary\<close>, \<open>experience\<close>, \<open>education\<close>, \<open>skills\<close>, \<open>projects\<close>, and no
  other; when no line of the text is accepted as a section header, each of the six
  values is the empty string.
\<close>

theorem extract_key_sections_six_keys:
  "map fst (extract_key_sections ucd text) = section_keys
   \<and> length (extract_key_sections ucd text) = 6
   \<and> ((\<forall>line\<in>set (str_split text nl). section_found ucd line = None) \<longrightarrow>
        extract_key_sections ucd text = map (\<lambda>k. (k, [])) section_keys)"
proof -
  have "length (map fst (extract_key_sections ucd text)) = 6"
    by (simp only: extract_key_sections_keys) (simp add: section_keys_def)
  then have "length (extract_key_sections ucd text) = 6"
    by (simp only: length_map)
  moreover have "(\<forall>line\<in>set (str_split text nl). section_found ucd line = None) \<longrightarrow>
        extract_key_sections ucd text = map (\<lambda>k. (k, [])) section_keys"
    by (auto simp: extract_key_sections_def sections_loop_no_header init_sections_def
        section_keys_def)
  ultimately show ?thesis using extract_key_sections_keys by simp
qed

theorem extract_key_sections_six_keys_witness:
  "extract_key_sections ascii_ucd (cps ''Jane Doe'' @ [10] @ cps ''Built a thing'')
   = [(cps ''contact'', []), (cps ''summary'', []), (cps ''experience'', []),
      (cps ''education'', []), (cps ''skills'', []), (cps ''projects'', [])]"
proof -
  have h: "\<forall>line\<in>set (str_split (cps ''Jane Doe'' @ [10] @ cps ''Built a thing'') nl).
             section_found ascii_ucd line = None"
    by (simp add: str_split_def nl_def cps_def section_found_def section_keywords_def
        str_lower_def lower_cp_def str_strip_def str_lstrip_def str_rstrip_def isspace_def)
  show ?thesis
    using h extract_key_sections_six_keys
      [of ascii_ucd "cps ''Jane Doe'' @ [10] @ cps ''Built a thing''"]
    by (simp add: section_keys_def)
qed

text \<open>
  Claim C9. For the two lines \<open>Experience\<close> and \<open>Built a thing\<close>, \<open>extract_key_sections\<close>
  puts \<open>Built a thing\<close> under \<open>experience\<close> and leaves the other five sections empty.
\<close>

theorem extract_key_sections_experience_example:
  "extract_key_sections ucd (cps ''Experience'' @ [10] @ cps ''Built a thing'')
   = [(cps ''contact'', []), (cps ''summary'', []), (cps ''experience'', cps ''Built a thing''),
      (cps ''education'', []), (cps ''skills'', []), (cps ''projects'', [])]"
  by (simp add: extract_key_sections_def str_split_def nl_def cps_def section_found_def
      section_keywords_def init_sections_def
      str_lower_def lower_cp_def str_strip_def str_lstrip_def str_rstrip_def isspace_def)

subsection \<open>Skills\<close>

lemma skills_loop_eq:
  "skills_loop resume_lower skills found
   = found @ map str_title (filter (str_contains resume_lower) skills)"
  by (induction skills arbitrary: found) auto

lemma title_common_skills:
  "map str_title common_skills =
     [cps ''Python'', cps ''Java'', cps ''Javascript'', cps ''React'', cps ''Node.Js'',
      cps ''Sql'', cps ''Mysql'', cps ''Postgresql'',
      cps ''Mongodb'', cps ''Aws'', cps ''Azure'', cps ''Docker'', cps ''Kubernetes'',
      cps ''Git'', cps ''Html'', cps ''Css'',
      cps ''Machine Learning'', cps ''Data Science'', cps ''Tensorflow'', cps ''Pytorch'',
      cps ''Pandas'', cps ''Numpy'',
      cps ''Api'', cps ''Rest'', cps ''Graphql'', cps ''Agile'', cps ''Scrum'', cps ''Ci/Cd'',
      cps ''Devops'', cps ''Linux'',
      cps ''Project Management'', cps ''Leadership'', cps ''Communication'',
      cps ''Problem Solving'']"
  by (simp add: common_skills_def cps_def str_title_def ascii_cased_def ascii_upper_def
      ascii_lower_def)

lemma distinct_title_skills: "distinct (map str_title common_skills)"
  unfolding title_common_skills by (simp add: cps_def)

lemma common_skills_nonempty: "[] \<notin> set common_skills"
  by (simp add: common_skills_def cps_def)

lemma filter_contains_Nil: "filter (str_contains []) common_skills = []"
  using common_skills_nonempty by (auto simp: filter_empty_conv)

lemma extract_skills_keywords_example:
  "extract_skills_keywords ucd (cps ''I know JavaScript, Node.JS, CI/CD and SQL'')
   = [cps ''Java'', cps ''Javascript'', cps ''Node.Js'', cps ''Sql'', cps ''Ci/Cd'']"
  by (simp add: extract_skills_keywords_def common_skills_def cps_def str_lower_def
      lower_cp_def str_title_def ascii_cased_def ascii_upper_def ascii_lower_def)

text \<open>
  Claim C6. \<open>extract_skills_keywords\<close> returns the title-cased forms of the entries of
  the vocabulary that occur as substrings of the lowercased text, and of those only, in
  the order of the vocabulary; the title-cased forms of the vocabulary are \<open>Python\<close>,
  \<open>Java\<close>, \<open>Javascript\<close>, \<open>React\<close>, \<open>Node.Js\<close> and so on, each word with its first letter
  in upper case and the others in lower case; no entry appears twice; for the empty text
  the result is empty; and for \<open>I know JavaScript, Node.JS, CI/CD and SQL\<close> the result
  is \<open>Java\<close>, \<open>Javascript\<close>, \<open>Node.Js\<close>, \<open>Sql\<close>, \<open>Ci/Cd\<close>.
\<close>

theorem extract_skills_keywords_vocabulary_order:
  "extract_skills_keywords ucd text
     = map str_title (filter (\<lambda>skill. \<exists>a b. str_lower ucd text = a @ skill @ b) common_skills)
   \<and> map str_title common_skills =
     [cps ''Python'', cps ''Java'', cps ''Javascript'', cps ''React'', cps ''Node.Js'',
      cps ''Sql'', cps ''Mysql'', cps ''Postgresql'',
      cps ''Mongodb'', cps ''Aws'', cps ''Azure'', cps ''Docker'', cps ''Kubernetes'',
      cps ''Git'', cps ''Html'', cps ''Css'',
      cps ''Machine Learning'', cps ''Data Science'', cps ''Tensorflow'', cps ''Pytorch'',
      cps ''Pandas'', cps ''Numpy'',
      cps ''Api'', cps ''Rest'', cps ''Graphql'', cps ''Agile'', cps ''Scrum'', cps ''Ci/Cd'',
      cps ''Devops'', cps ''Linux'',
      cps ''Project Management'', cps ''Leadership'', cps ''Communication'',
      cps ''Problem Solving'']
   \<and> distinct (extract_skills_keywords ucd text)
   \<and> extract_skills_keywords ucd [] = []
   \<and> extract_skills_keywords ucd (cps ''I know JavaScript, Node.JS, CI/CD and SQL'')
     = [cps ''Java'', cps ''Javascript'', cps ''Node.Js'', cps ''Sql'', cps ''Ci/Cd'']"
proof -
  have e: "extract_skills_keywords ucd t
     = map str_title (filter (str_contains (str_lower ucd t)) common_skills)" for t
    by (simp add: extract_skills_keywords_def skills_loop_eq)
  have "filter (str_contains (str_lower ucd text)) common_skills
        = filter (\<lambda>skill. \<exists>a b. str_lower ucd text = a @ skill @ b) common_skills"
    by (rule filter_cong) (simp_all add: str_contains_iff)
  then have 1: "extract_skills_keywords ucd text
     = map str_title (filter (\<lambda>skill. \<exists>a b. str_lower ucd text = a @ skill @ b) common_skills)"
    using e by simp
  have 2: "distinct (extract_skills_keywords ucd text)"
    unfolding e using distinct_title_skills by (rule distinct_map_filter)
  have 3: "extract_skills_keywords ucd [] = []"
    unfolding e by (simp add: str_lower_def filter_contains_Nil)
  show ?thesis
    using 1 2 3 title_common_skills extract_skills_keywords_example by (intro conjI)
qed

subsection \<open>extract\_text and add\_job\_application\<close>

text \<open>
  Claim C3, as stated, fails: for the file \<open>cv.xyz\<close> the call raises a plain \<open>Exception\<close>,
  the base class, and no error kind of its own; the \<open>ValueError\<close> raised for the
  extension is caught inside the call and survives only as the \<open>__context__\<close> of that
  \<open>Exception\<close>.
\<close>

theorem extract_text_unsupported_is_plain_exception:
  "extract_text ascii_ucd junk_libs \<lparr>file_name = cps ''cv.xyz'', file_bytes = []\<rparr>
     = Inl (PyExc (cps ''Exception'')
              (cps ''Error extracting text from resume: Unsupported file format: xyz'')
              (Some (PyExc (cps ''ValueError'') (cps ''Unsupported file format: xyz'') None)))"
  by (simp add: extract_text_def extract_text_body_def str_split_def cps_def str_lower_def
      lower_cp_def)

text \<open>
  Claim C3, amended. For every file whose extension (the text after the last dot of the
  name, or the whole name when it has no dot, lowercased) is none of \<open>txt\<close>, \<open>docx\<close>,
  \<open>pdf\<close>, \<open>extract_text\<close> returns no text: it raises a plain \<open>Exception\<close> whose message is
  \<open>Error extracting text from resume: Unsupported file format:\<close> and the extension, and
  whose \<open>__context__\<close> is the \<open>ValueError\<close> with the message \<open>Unsupported file format:\<close> and
  the extension. Every failure of \<open>extract_text\<close> is of the class \<open>Exception\<close> and has the
  exception it wraps as its \<open>__context__\<close>.
\<close>

theorem extract_text_unsupported_format:
  "(str_lower ucd (last (str_split (file_name file) (cps ''.'')))
      \<notin> {cps ''txt'', cps ''docx'', cps ''pdf''} \<longrightarrow>
    extract_text ucd l file
      = Inl (PyExc (cps ''Exception'')
               (cps ''Error extracting text from resume: Unsupported file format: ''
                @ str_lower ucd (last (str_split (file_name file) (cps ''.''))))
               (Some (PyExc (cps ''ValueError'')
                        (cps ''Unsupported file format: ''
                         @ str_lower ucd (last (str_split (file_name file) (cps ''.''))))
                        None))))
   \<and> (\<forall>e. extract_text ucd l file = Inl e \<longrightarrow>
          exc_class e = cps ''Exception'' \<and> exc_context e \<noteq> None)"
  by (auto simp: extract_text_def extract_text_body_def Let_def cps_def split: sum.splits)

theorem extract_text_unsupported_format_witness:
  "extract_text greek_ucd junk_libs
     \<lparr>file_name = cps ''cv.'' @ [931, 913, 931], file_bytes = [80, 75]\<rparr>
     = Inl (PyExc (cps ''Exception'')
              (cps ''Error extracting text from resume: Unsupported file format: ''
               @ [963, 945, 962])
              (Some (PyExc (cps ''ValueError'')
                       (cps ''Unsupported file format: '' @ [963, 945, 962]) None)))"
proof -
  have e: "str_lower greek_ucd
             (last (str_split
                (file_name \<lparr>file_name = cps ''cv.'' @ [931, 913, 931], file_bytes = [80, 75]\<rparr>)
                (cps ''.''))) = [963, 945, 962]"
    by (simp add: str_split_def cps_def str_lower_def lower_cp_def final_sigma_def
        greek_ucd_def isspace_def)
  have h: "[963, 945, 962] \<notin> {cps ''txt'', cps ''docx'', cps ''pdf''}"
    by (simp add: cps_def)
  show ?thesis
    using h extract_text_unsupported_format
      [of greek_ucd "\<lparr>file_name = cps ''cv.'' @ [931, 913, 931], file_bytes = [80, 75]\<rparr>"
          junk_libs]
    unfolding e by simp
qed

lemma funpow_7: "(f ^^ 7) x = f (f (f (f (f (f (f x))))))"
  by (simp add: eval_nat_numeral)

lemma plus_days_example:
  "plus_days \<lparr>year = 2024, month = 6, day = 15\<rparr> 7 = Inr \<lparr>year = 2024, month = 6, day = 22\<rparr>"
  by (simp add: plus_days_def funpow_7 next_day_def days_in_month_def)

lemma add_job_application_inserts_nothing:
  "add_job_application airtable now2 application_data table = (False, table)"
  by (simp add: add_job_application_def build_record_def record_defaults_def split: option.splits)

text \<open>
  Claim C7 at a concrete input: an application dated 2024-01-01 and without a follow-up
  date, given on 2024-06-15 to a tracker whose table works. \<open>add_job_application\<close>
  returns \<open>False\<close> and inserts no record, since the defaults read the local name
  \<open>datetime\<close> before the import binds it. With the name bound, the record built carries
  the follow-up date 2024-06-22, seven days after the clock's reading, and not
  2024-01-08, seven days after the application date.
\<close>

theorem add_job_application_follow_up_from_clock:
  "add_job_application (Some list_table) \<lparr>year = 2024, month = 6, day = 15\<rparr>
     [(cps ''Company'', cps ''Acme''), (cps ''Position'', cps ''Engineer''),
      (cps ''Application Date'', cps ''2024-01-01'')] []
   = (False, [])
   \<and> build_record (Some \<lparr>year = 2024, month = 6, day = 15\<rparr>) \<lparr>year = 2024, month = 6, day = 15\<rparr>
     [(cps ''Company'', cps ''Acme''), (cps ''Position'', cps ''Engineer''),
      (cps ''Application Date'', cps ''2024-01-01'')]
   = Inr [(cps ''Company'', cps ''Acme''), (cps ''Position'', cps ''Engineer''),
          (cps ''Status'', cps ''Applied''), (cps ''Application Date'', cps ''2024-01-01''),
          (cps ''Job Description URL'', []), (cps ''Notes'', []), (cps ''Salary Range'', []),
          (cps ''Contact Person'', []), (cps ''Follow-up Date'', cps ''2024-06-22'')]"
  by (simp add: add_job_application_def build_record_def record_defaults_def dict_get_def
      plus_days_example strftime_ymd_def dec2_def dec4_def cps_def)

subsection \<open>research\_company\<close>

lemma format_company_info_title:
  "\<exists>rest. format_company_info company_name info
      = cps ''Company Research: '' @ company_name @ rest"
  by (simp add: format_company_info_def)

lemma research_company_formats:
  "\<exists>info. research_company ucd search get serpapi_key company_name
      = Inr (format_company_info company_name info)"
  unfolding research_company_def research_company_body_def Let_def sum.case
  by (rule exI) (rule refl)

lemma research_company_returns:
  "\<exists>s. research_company ucd search get serpapi_key company_name = Inr s
       \<and> s \<noteq> [] \<and> str_contains s company_name"
proof -
  obtain info where i: "research_company ucd search get serpapi_key company_name
      = Inr (format_company_info company_name info)"
    using research_company_formats by blast
  obtain rest where r: "format_company_info company_name info
      = cps ''Company Research: '' @ company_name @ rest"
    using format_company_info_title by blast
  have "format_company_info company_name info \<noteq> []"
    unfolding r by (simp add: cps_def)
  moreover have "str_contains (format_company_info company_name info) company_name"
    unfolding r str_contains_iff by blast
  ultimately show ?thesis using i by simp
qed

lemma research_with_serpapi_fails:
  "\<forall>params. \<exists>e. search params = Inl e \<Longrightarrow>
   research_with_serpapi ucd search k company_name = empty_info"
proof -
  assume a: "\<forall>params. \<exists>e. search params = Inl e"
  obtain e where "search \<lparr>sp_q = company_name @ cps '' company about'', sp_api_key = k,
                    sp_tbm = None, sp_num = 5\<rparr> = Inl e"
    using a by blast
  then show ?thesis by (simp add: research_with_serpapi_def)
qed

lemma research_with_scraping_fails:
  "\<forall>url. \<exists>e. get url = Inl e \<Longrightarrow> research_with_scraping ucd get company_name = empty_info"
proof -
  assume a: "\<forall>url. \<exists>e. get url = Inl e"
  obtain e where "get (cps ''https://www.google.com/search?q='' @ company_name
                  @ cps ''+official+website'') = Inl e"
    using a by blast
  then show ?thesis by (simp add: research_with_scraping_def)
qed

lemma format_nothing_found:
  "format_company_info company_name
     (info_update \<lparr>basic_info = [], recent_news = [], company_culture = [],
                   size_and_industry = [], recent_achievements = []\<rparr> empty_info)
   = empty_brief company_name"
  by (simp add: format_company_info_def info_update_def empty_info_def empty_brief_def)

lemma empty_brief_not_disclaimer: "empty_brief company_name \<noteq> disclaimer company_name"
  by (simp add: empty_brief_def disclaimer_def cps_def)

lemma research_company_never_disclaimer:
  "research_company ucd search get serpapi_key company_name \<noteq> Inr (disclaimer company_name)"
proof -
  obtain info where i: "research_company ucd search get serpapi_key company_name
      = Inr (format_company_info company_name info)"
    using research_company_formats by blast
  obtain rest where r: "format_company_info company_name info
      = cps ''Company Research: '' @ company_name @ rest"
    using format_company_info_title by blast
  have "hd (format_company_info company_name info) = 67"
    unfolding r by (simp add: cps_def)
  moreover have "hd (disclaimer company_name) = 76"
    by (simp add: disclaimer_def cps_def)
  ultimately have "format_company_info company_name info \<noteq> disclaimer company_name"
    by auto
  then show ?thesis using i by simp
qed

lemma research_company_nothing_found:
  assumes "((\<exists>k. serpapi_key = Some k \<and> k \<noteq> []) \<and> (\<forall>params. \<exists>e. search params = Inl e))
           \<or> ((serpapi_key = None \<or> serpapi_key = Some []) \<and> (\<forall>url. \<exists>e. get url = Inl e))"
  shows "research_company ucd search get serpapi_key company_name
           = Inr (empty_brief company_name)"
  using assms
  by (auto simp: research_company_def research_company_body_def research_with_serpapi_fails
      research_with_scraping_fails format_nothing_found)

text \<open>
  Claim C8 at a concrete input: the company \<open>Acme\<close>, no search key, and a web on which
  every request fails. The claim has \<open>research_company\<close> return a disclaimer that mentions
  the company, and the handler of \<open>research_company\<close> has one, \<open>Limited company information
  available for Acme. ...\<close>. The call returns instead the title line \<open>Company Research: Acme\<close>
  followed by the note on how to use the information: the research methods catch their
  exceptions themselves, so the handler with the disclaimer is never reached.
\<close>

theorem research_company_offline_no_disclaimer:
  "research_company ascii_ucd no_search no_web None (cps ''Acme'')
     = Inr (cps ''Company Research: Acme'' @ [10, 10, 10]
            @ cps ''[Use this information to show genuine interest and knowledge about the company in your cover letter]'')
   \<and> research_company ascii_ucd no_search no_web None (cps ''Acme'')
     \<noteq> Inr (cps ''Limited company information available for Acme. Consider researching the company manually for better personalization.'')
   \<and> disclaimer (cps ''Acme'')
     = cps ''Limited company information available for Acme. Consider researching the company manually for better personalization.''"
  by (simp add: research_company_def research_company_body_def research_with_scraping_def
      no_web_def info_update_def empty_info_def format_company_info_def disclaimer_def cps_def)

end
